theory Spec2Isabelle
  imports Main "HOL-Library.Word"
begin

section \<open>The OpenSSL crypto backend of cryptsetup (lib/crypto_backend/crypto_openssl.c)\<close>

text \<open>
  A shallow embedding of \<^verbatim>\<open>crypto_openssl.c\<close>. Every function of the file that a
  property below talks about is translated statement by statement. The calls into the
  OpenSSL library (and into \<^verbatim>\<open>argon2\<close>, which \<^verbatim>\<open>crypto_backend.h\<close> declares) are not part
  of the file: they are the fields of a record \<open>backend\<close> that every translated function
  takes as its first argument, so that a theorem with a free \<open>b\<close> holds for every
  behaviour of the library, failures included.
\<close>

subsection \<open>C data\<close>

type_synonym byte = "8 word"
type_synonym bytes = "byte list"

text \<open>
  The functions return \<^verbatim>\<open>0\<close> or a negated \<^verbatim>\<open>errno\<close> value. The three values the file
  uses are distinct numbers in \<^verbatim>\<open>errno.h\<close>; they are the constructors of \<open>errno\<close>, and
  \<open>ERR e\<close> stands for \<^verbatim>\<open>return -e\<close>.
\<close>

datatype errno = EINVAL | ENOMEM | ENOTSUP

datatype ret = OK | ERR errno

text \<open>
  C strings are \<open>string\<close>s (the characters before the terminating NUL). \<^verbatim>\<open>strcmp\<close> and
  \<^verbatim>\<open>strncmp\<close> walk both strings; the C standard fixes only the sign of a non-zero
  result, which is \<open>-1\<close> or \<open>1\<close> here. A string that ends is read as its NUL, which is
  smaller than every character of a C string.
\<close>

fun strcmp :: "string \<Rightarrow> string \<Rightarrow> int" where
  "strcmp [] [] = 0"
| "strcmp [] (y # ys) = -1"
| "strcmp (x # xs) [] = 1"
| "strcmp (x # xs) (y # ys) =
     (if x = y then strcmp xs ys
      else if (of_char x :: nat) < of_char y then -1 else 1)"

fun strncmp :: "string \<Rightarrow> string \<Rightarrow> nat \<Rightarrow> int" where
  "strncmp s t 0 = 0"
| "strncmp [] [] (Suc n) = 0"
| "strncmp [] (y # ys) (Suc n) = -1"
| "strncmp (x # xs) [] (Suc n) = 1"
| "strncmp (x # xs) (y # ys) (Suc n) =
     (if x = y then strncmp xs ys n
      else if (of_char x :: nat) < of_char y then -1 else 1)"

subsection \<open>Cipher resolution (crypt_cipher_init, lines 346 to 374)\<close>

text \<open>
  The \<^verbatim>\<open>EVP_CIPHER\<close> objects that \<^verbatim>\<open>EVP_aes_128_xts()\<close> and its siblings return.
\<close>

datatype evp_cipher =
    EVP_aes_128_xts | EVP_aes_256_xts
  | EVP_aes_128_cbc | EVP_aes_192_cbc | EVP_aes_256_cbc
  | EVP_aes_128_ecb | EVP_aes_192_ecb | EVP_aes_256_ecb

text \<open>
  The first part of \<^verbatim>\<open>crypt_cipher_init\<close>, before anything is allocated. The local
  \<^verbatim>\<open>type\<close> starts as \<^verbatim>\<open>NULL\<close> (\<open>None\<close>); a mode branch assigns it only for the key
  lengths it lists; the final \<^verbatim>\<open>else\<close> returns \<^verbatim>\<open>-ENOTSUP\<close> at once, and a \<^verbatim>\<open>type\<close> that
  is still \<^verbatim>\<open>NULL\<close> after the branches returns \<^verbatim>\<open>-EINVAL\<close>.
\<close>

definition crypt_cipher_init_type :: "string \<Rightarrow> string \<Rightarrow> nat \<Rightarrow> errno + evp_cipher" where
  "crypt_cipher_init_type name mode key_length =
     (if strcmp name ''aes'' \<noteq> 0 then Inl ENOTSUP
      else
        case
          (if strcmp mode ''xts'' = 0 then
             Inr (if key_length = 32 then Some EVP_aes_128_xts
                  else if key_length = 64 then Some EVP_aes_256_xts
                  else None)
           else if strcmp mode ''cbc'' = 0 then
             Inr (if key_length = 16 then Some EVP_aes_128_cbc
                  else if key_length = 24 then Some EVP_aes_192_cbc
                  else if key_length = 32 then Some EVP_aes_256_cbc
                  else None)
           else if strcmp mode ''ecb'' = 0 then
             Inr (if key_length = 16 then Some EVP_aes_128_ecb
                  else if key_length = 24 then Some EVP_aes_192_ecb
                  else if key_length = 32 then Some EVP_aes_256_ecb
                  else None)
           else Inl ENOTSUP)
        of
          Inl e \<Rightarrow> Inl e
        | Inr None \<Rightarrow> Inl EINVAL
        | Inr (Some type) \<Rightarrow> Inr type)"

text \<open>The (mode, key length) pairs the spec lists as supported.\<close>

definition supported_pairs :: "(string \<times> nat) set" where
  "supported_pairs =
     {(''xts'', 32), (''xts'', 64),
      (''cbc'', 16), (''cbc'', 24), (''cbc'', 32),
      (''ecb'', 16), (''ecb'', 24), (''ecb'', 32)}"

definition known_modes :: "string set" where
  "known_modes = {''xts'', ''cbc'', ''ecb''}"


subsection \<open>C integers\<close>

text \<open>
  \<^verbatim>\<open>size_t\<close> and \<^verbatim>\<open>uint32_t\<close> values are natural numbers and \<^verbatim>\<open>int\<close> values are
  integers; the two conversions the file performs are written out for the LP64 data
  model (32-bit \<^verbatim>\<open>int\<close>, 64-bit \<^verbatim>\<open>size_t\<close>): the conversion of an unsigned \<open>x\<close> to
  \<^verbatim>\<open>int\<close> keeps the low 32 bits and reads them as two's complement, \<^verbatim>\<open>(size_t)i\<close> on an
  \<^verbatim>\<open>int\<close> wraps a negative value around \<open>2 ^ 64\<close>. The conversion to \<^verbatim>\<open>int\<close> happens
  where the source writes the cast \<^verbatim>\<open>(int)x\<close> and also, without a cast, where a
  \<^verbatim>\<open>size_t\<close> is the argument for an \<^verbatim>\<open>int\<close> parameter of a library function.
\<close>

definition c_int :: "nat \<Rightarrow> int" where
  "c_int x = (int x + 2 ^ 31) mod 2 ^ 32 - 2 ^ 31"

definition c_size_t :: "int \<Rightarrow> nat" where
  "c_size_t i = nat (i mod 2 ^ 64)"

subsection \<open>Memory\<close>

text \<open>
  A pointer to an object that has one owner is the object's address together with the
  object's current contents; \<^verbatim>\<open>NULL\<close> is \<open>None\<close> of the option type.
\<close>

datatype 'a ptr = Ptr (addr: nat) (deref: 'a)

text \<open>
  The allocator. \<open>live\<close> lists the addresses handed out and not yet freed, \<open>script\<close>
  decides the coming requests (\<open>True\<close>: the request fails and returns \<^verbatim>\<open>NULL\<close>; an
  exhausted script lets every request succeed), \<open>faulted\<close> records a \<^verbatim>\<open>free\<close> of an
  address that is not live. \<^verbatim>\<open>free(NULL)\<close> does nothing.
\<close>

record heap =
  live :: "nat list"
  script :: "bool list"
  faulted :: bool

definition fresh_addr :: "nat list \<Rightarrow> nat" where
  "fresh_addr as = Suc (foldr max as 0)"

definition malloc :: "heap \<Rightarrow> nat option \<times> heap" where
  "malloc hp =
     (case script hp of
        True # rest \<Rightarrow> (None, hp\<lparr>script := rest\<rparr>)
      | _ \<Rightarrow> (Some (fresh_addr (live hp)),
              hp\<lparr>live := fresh_addr (live hp) # live hp, script := tl (script hp)\<rparr>))"

definition free :: "nat option \<Rightarrow> heap \<Rightarrow> heap" where
  "free p hp =
     (case p of
        None \<Rightarrow> hp
      | Some a \<Rightarrow> if a \<in> set (live hp) then hp\<lparr>live := remove1 a (live hp)\<rparr>
                  else hp\<lparr>faulted := True\<rparr>)"

text \<open>
  \<^verbatim>\<open>memcpy(dst, src, n)\<close> on buffers given by their contents. Reading or writing past the
  end of a buffer is undefined behaviour in C and \<open>None\<close> here.
\<close>

definition memcpy :: "bytes \<Rightarrow> bytes \<Rightarrow> nat \<Rightarrow> bytes option" where
  "memcpy dst src n =
     (if n \<le> length src \<and> n \<le> length dst then Some (take n src @ drop n dst) else None)"

text \<open>
  What a library call leaves in the caller's output buffer when it writes the bytes \<open>bs\<close>
  at offset \<open>off\<close>; \<open>None\<close> when they do not fit.
\<close>

definition store_at :: "bytes \<Rightarrow> nat \<Rightarrow> bytes \<Rightarrow> bytes option" where
  "store_at buf off bs =
     (if off + length bs \<le> length buf
      then Some (take off buf @ bs @ drop (off + length bs) buf) else None)"

text \<open>
  Modelled from the spec: \<^verbatim>\<open>crypt_backend_memzero\<close> is declared in
  \<^verbatim>\<open>crypto_backend.h\<close> and its body is not among the source files. The spec says that
  finalize "zeroes the internal full-size scratch": the first \<open>n\<close> bytes become zero.
\<close>

definition crypt_backend_memzero :: "bytes \<Rightarrow> nat \<Rightarrow> bytes" where
  "crypt_backend_memzero buf n = replicate n 0 @ drop n buf"

text \<open>\<^verbatim>\<open>EVP_MAX_MD_SIZE\<close> of \<^verbatim>\<open>openssl/evp.h\<close>: the size of the scratch array \<^verbatim>\<open>tmp\<close>.\<close>

definition EVP_MAX_MD_SIZE :: nat where
  "EVP_MAX_MD_SIZE = 64"

subsection \<open>The library\<close>

text \<open>
  One field per library function the file calls. \<open>'md\<close>, \<open>'hm\<close> and \<open>'cc\<close> are the
  contents of an \<^verbatim>\<open>EVP_MD_CTX\<close>, an \<^verbatim>\<open>HMAC_CTX\<close> and an \<^verbatim>\<open>EVP_CIPHER_CTX\<close>, \<open>'id\<close> is an
  \<^verbatim>\<open>EVP_MD\<close>. A call that updates a context returns the new contents; a call that
  writes to a buffer returns what it wrote; every call returns its \<^verbatim>\<open>int\<close> result. A
  pointer argument that may be \<^verbatim>\<open>NULL\<close> is an option. The arguments are the ones the
  source passes, in its order (the always-\<^verbatim>\<open>NULL\<close> engine argument is left out). A
  length has the type of the library's parameter: \<^verbatim>\<open>size_t\<close> (a natural number) for
  \<^verbatim>\<open>EVP_DigestUpdate\<close> and \<^verbatim>\<open>HMAC_Update\<close>, \<^verbatim>\<open>int\<close> for the key length of
  \<^verbatim>\<open>HMAC_Init_ex\<close>, the input length of \<^verbatim>\<open>EVP_EncryptUpdate\<close> and
  \<^verbatim>\<open>EVP_DecryptUpdate\<close>, and the lengths and the count of \<^verbatim>\<open>PKCS5_PBKDF2_HMAC\<close>.
  \<^item> \<open>EVP_DigestFinal_ex\<close> and \<open>HMAC_Final\<close> take the scratch array as the caller
    hands it over and return its new contents and the length they report.
  \<^item> \<open>EVP_EncryptUpdate\<close> and \<open>EVP_DecryptUpdate\<close> take the input buffer and the length
    argument and return the bytes written to the output; the length they report
    through \<^verbatim>\<open>&len\<close> is the number of those bytes. The two \<open>Final\<close> calls likewise.
  \<^item> \<open>PKCS5_PBKDF2_HMAC\<close> takes the key buffer last and returns its new contents.
  \<^item> \<open>argon2\<close> is the function of that name that \<^verbatim>\<open>crypto_backend.h\<close> declares.
  \<^item> The three \<open>_CTX_init\<close> fields are the contents of a context that the library's
    \<open>_CTX_new\<close> has just allocated.
\<close>

record ('md, 'hm, 'cc, 'id) backend =
  EVP_get_digestbyname :: "string \<Rightarrow> 'id option"
  EVP_MD_size :: "'id \<Rightarrow> int"
  EVP_MD_CTX_init :: "'md"
  EVP_DigestInit_ex :: "'md \<Rightarrow> 'id \<Rightarrow> int \<times> 'md"
  EVP_DigestUpdate :: "'md \<Rightarrow> bytes \<Rightarrow> nat \<Rightarrow> int \<times> 'md"
  EVP_DigestFinal_ex :: "'md \<Rightarrow> bytes \<Rightarrow> int \<times> bytes \<times> nat \<times> 'md"
  HMAC_CTX_init :: "'hm"
  HMAC_Init_ex :: "'hm \<Rightarrow> bytes option \<Rightarrow> int \<Rightarrow> 'id \<Rightarrow> int \<times> 'hm"
  HMAC_Update :: "'hm \<Rightarrow> bytes \<Rightarrow> nat \<Rightarrow> int \<times> 'hm"
  HMAC_Final :: "'hm \<Rightarrow> bytes \<Rightarrow> int \<times> bytes \<times> nat \<times> 'hm"
  PKCS5_PBKDF2_HMAC ::
    "bytes \<Rightarrow> int \<Rightarrow> bytes \<Rightarrow> int \<Rightarrow> int \<Rightarrow> 'id \<Rightarrow> int \<Rightarrow> bytes \<Rightarrow> int \<times> bytes"
  argon2 ::
    "string \<Rightarrow> bytes \<Rightarrow> nat \<Rightarrow> bytes \<Rightarrow> nat \<Rightarrow> bytes \<Rightarrow> nat \<Rightarrow> nat \<Rightarrow> nat \<Rightarrow> nat \<Rightarrow> ret \<times> bytes"
  EVP_CIPHER_CTX_init :: "'cc"
  EVP_EncryptInit_ex :: "'cc \<Rightarrow> evp_cipher option \<Rightarrow> bytes option \<Rightarrow> bytes option \<Rightarrow> int \<times> 'cc"
  EVP_DecryptInit_ex :: "'cc \<Rightarrow> evp_cipher option \<Rightarrow> bytes option \<Rightarrow> bytes option \<Rightarrow> int \<times> 'cc"
  EVP_CIPHER_CTX_set_padding :: "'cc \<Rightarrow> int \<Rightarrow> int \<times> 'cc"
  EVP_EncryptUpdate :: "'cc \<Rightarrow> bytes \<Rightarrow> int \<Rightarrow> int \<times> bytes \<times> 'cc"
  EVP_EncryptFinal :: "'cc \<Rightarrow> int \<times> bytes \<times> 'cc"
  EVP_DecryptUpdate :: "'cc \<Rightarrow> bytes \<Rightarrow> int \<Rightarrow> int \<times> bytes \<times> 'cc"
  EVP_DecryptFinal :: "'cc \<Rightarrow> int \<times> bytes \<times> 'cc"

text \<open>
  The library's allocation and release of its context objects go through the allocator
  above. Each \<open>_free\<close> accepts \<^verbatim>\<open>NULL\<close> and then does nothing, as the library documents.
\<close>

definition EVP_MD_CTX_new :: "('md, 'hm, 'cc, 'id) backend \<Rightarrow> heap \<Rightarrow> 'md ptr option \<times> heap" where
  "EVP_MD_CTX_new b hp =
     (case malloc hp of
        (None, hp') \<Rightarrow> (None, hp')
      | (Some a, hp') \<Rightarrow> (Some (Ptr a (EVP_MD_CTX_init b)), hp'))"

definition EVP_MD_CTX_free :: "'md ptr option \<Rightarrow> heap \<Rightarrow> heap" where
  "EVP_MD_CTX_free p hp = free (map_option addr p) hp"

definition HMAC_CTX_new :: "('md, 'hm, 'cc, 'id) backend \<Rightarrow> heap \<Rightarrow> 'hm ptr option \<times> heap" where
  "HMAC_CTX_new b hp =
     (case malloc hp of
        (None, hp') \<Rightarrow> (None, hp')
      | (Some a, hp') \<Rightarrow> (Some (Ptr a (HMAC_CTX_init b)), hp'))"

definition HMAC_CTX_free :: "'hm ptr option \<Rightarrow> heap \<Rightarrow> heap" where
  "HMAC_CTX_free p hp = free (map_option addr p) hp"

definition EVP_CIPHER_CTX_new :: "('md, 'hm, 'cc, 'id) backend \<Rightarrow> heap \<Rightarrow> 'cc ptr option \<times> heap" where
  "EVP_CIPHER_CTX_new b hp =
     (case malloc hp of
        (None, hp') \<Rightarrow> (None, hp')
      | (Some a, hp') \<Rightarrow> (Some (Ptr a (EVP_CIPHER_CTX_init b)), hp'))"

definition EVP_CIPHER_CTX_free :: "'cc ptr option \<Rightarrow> heap \<Rightarrow> heap" where
  "EVP_CIPHER_CTX_free p hp = free (map_option addr p) hp"

subsection \<open>HASH\<close>

record ('md, 'id) crypt_hash =
  md :: "'md ptr"
  hash_id :: 'id
  hash_len :: int

text \<open>
  \<^verbatim>\<open>crypt_hash_init\<close>. The second argument is what the caller's \<^verbatim>\<open>*ctx\<close> holds before the
  call, the second component of the result what it holds after it.
\<close>

definition crypt_hash_init ::
  "('md, 'hm, 'cc, 'id) backend \<Rightarrow> ('md, 'id) crypt_hash ptr option \<Rightarrow> string \<Rightarrow> heap
     \<Rightarrow> ret \<times> ('md, 'id) crypt_hash ptr option \<times> heap" where
  "crypt_hash_init b ctx name hp =
     (case malloc hp of
        (None, hp1) \<Rightarrow> (ERR ENOMEM, ctx, hp1)
      | (Some h, hp1) \<Rightarrow>
          (case EVP_MD_CTX_new b hp1 of
             (None, hp2) \<Rightarrow> (ERR ENOMEM, ctx, free (Some h) hp2)
           | (Some m, hp2) \<Rightarrow>
               (case EVP_get_digestbyname b name of
                  None \<Rightarrow> (ERR EINVAL, ctx, free (Some h) (EVP_MD_CTX_free (Some m) hp2))
                | Some hid \<Rightarrow>
                    (case EVP_DigestInit_ex b (deref m) hid of
                       (r, m1) \<Rightarrow>
                         if r \<noteq> 1
                         then (ERR EINVAL, ctx, free (Some h) (EVP_MD_CTX_free (Some m) hp2))
                         else (OK,
                               Some (Ptr h \<lparr>md = Ptr (addr m) m1, hash_id = hid,
                                            hash_len = EVP_MD_size b hid\<rparr>),
                               hp2)))))"

definition crypt_hash_restart ::
  "('md, 'hm, 'cc, 'id) backend \<Rightarrow> ('md, 'id) crypt_hash \<Rightarrow> ret \<times> ('md, 'id) crypt_hash" where
  "crypt_hash_restart b ctx =
     (case EVP_DigestInit_ex b (deref (md ctx)) (hash_id ctx) of
        (r, m1) \<Rightarrow>
          (if r \<noteq> 1 then ERR EINVAL else OK, ctx\<lparr>md := Ptr (addr (md ctx)) m1\<rparr>))"

definition crypt_hash_write ::
  "('md, 'hm, 'cc, 'id) backend \<Rightarrow> ('md, 'id) crypt_hash \<Rightarrow> bytes \<Rightarrow> nat
     \<Rightarrow> ret \<times> ('md, 'id) crypt_hash" where
  "crypt_hash_write b ctx buffer len =
     (case EVP_DigestUpdate b (deref (md ctx)) buffer len of
        (r, m1) \<Rightarrow>
          (if r \<noteq> 1 then ERR EINVAL else OK, ctx\<lparr>md := Ptr (addr (md ctx)) m1\<rparr>))"

text \<open>
  \<^verbatim>\<open>crypt_hash_final\<close>. \<open>buffer\<close> is the caller's output buffer and \<open>tmp0\<close> what the
  uninitialised stack array \<^verbatim>\<open>tmp\<close> holds on entry. The result is the return value, the
  caller's buffer, the scratch array as the function leaves it, and the context.
\<close>

definition crypt_hash_final ::
  "('md, 'hm, 'cc, 'id) backend \<Rightarrow> ('md, 'id) crypt_hash \<Rightarrow> bytes \<Rightarrow> nat \<Rightarrow> bytes
     \<Rightarrow> (ret \<times> bytes \<times> bytes \<times> ('md, 'id) crypt_hash) option" where
  "crypt_hash_final b ctx buffer len tmp0 =
     (if len > c_size_t (hash_len ctx) then Some (ERR EINVAL, buffer, tmp0, ctx)
      else
        case EVP_DigestFinal_ex b (deref (md ctx)) tmp0 of
          (r, tmp, tmp_len, m1) \<Rightarrow>
            if r \<noteq> 1 then Some (ERR EINVAL, buffer, tmp, ctx\<lparr>md := Ptr (addr (md ctx)) m1\<rparr>)
            else
              case memcpy buffer tmp len of
                None \<Rightarrow> None
              | Some buffer1 \<Rightarrow>
                  if tmp_len < len
                  then Some (ERR EINVAL, buffer1, crypt_backend_memzero tmp EVP_MAX_MD_SIZE,
                             ctx\<lparr>md := Ptr (addr (md ctx)) m1\<rparr>)
                  else
                    case crypt_hash_restart b (ctx\<lparr>md := Ptr (addr (md ctx)) m1\<rparr>) of
                      (r2, ctx2) \<Rightarrow>
                        Some (if r2 \<noteq> OK then ERR EINVAL else OK, buffer1,
                              crypt_backend_memzero tmp EVP_MAX_MD_SIZE, ctx2))"

subsection \<open>HMAC\<close>

text \<open>
  \<^verbatim>\<open>struct crypt_hmac\<close> has the fields \<^verbatim>\<open>md\<close>, \<^verbatim>\<open>hash_id\<close> and \<^verbatim>\<open>hash_len\<close> too; they
  carry the prefix \<open>hmac_\<close> here, since a field name is a constant. In
  \<^verbatim>\<open>crypt_hmac_init\<close> the \<^verbatim>\<open>size_t key_length\<close> is the argument for the \<^verbatim>\<open>int len\<close> of
  \<^verbatim>\<open>HMAC_Init_ex\<close>, so the library receives \<open>c_int key_length\<close>; the call's result is
  not tested.
\<close>

record ('hm, 'id) crypt_hmac =
  hmac_md :: "'hm ptr"
  hmac_hash_id :: 'id
  hmac_hash_len :: int

definition crypt_hmac_init ::
  "('md, 'hm, 'cc, 'id) backend \<Rightarrow> ('hm, 'id) crypt_hmac ptr option \<Rightarrow> string \<Rightarrow> bytes \<Rightarrow> nat
     \<Rightarrow> heap \<Rightarrow> ret \<times> ('hm, 'id) crypt_hmac ptr option \<times> heap" where
  "crypt_hmac_init b ctx name key key_length hp =
     (case malloc hp of
        (None, hp1) \<Rightarrow> (ERR ENOMEM, ctx, hp1)
      | (Some h, hp1) \<Rightarrow>
          (case HMAC_CTX_new b hp1 of
             (None, hp2) \<Rightarrow> (ERR ENOMEM, ctx, free (Some h) hp2)
           | (Some m, hp2) \<Rightarrow>
               (case EVP_get_digestbyname b name of
                  None \<Rightarrow> (ERR EINVAL, ctx, free (Some h) (HMAC_CTX_free (Some m) hp2))
                | Some hid \<Rightarrow>
                    (case HMAC_Init_ex b (deref m) (Some key) (c_int key_length) hid of
                       (r, m1) \<Rightarrow>
                         (OK,
                          Some (Ptr h \<lparr>hmac_md = Ptr (addr m) m1, hmac_hash_id = hid,
                                       hmac_hash_len = EVP_MD_size b hid\<rparr>),
                          hp2)))))"

definition crypt_hmac_restart ::
  "('md, 'hm, 'cc, 'id) backend \<Rightarrow> ('hm, 'id) crypt_hmac \<Rightarrow> ('hm, 'id) crypt_hmac" where
  "crypt_hmac_restart b ctx =
     (case HMAC_Init_ex b (deref (hmac_md ctx)) None 0 (hmac_hash_id ctx) of
        (r, m1) \<Rightarrow> ctx\<lparr>hmac_md := Ptr (addr (hmac_md ctx)) m1\<rparr>)"

definition crypt_hmac_write ::
  "('md, 'hm, 'cc, 'id) backend \<Rightarrow> ('hm, 'id) crypt_hmac \<Rightarrow> bytes \<Rightarrow> nat
     \<Rightarrow> ret \<times> ('hm, 'id) crypt_hmac" where
  "crypt_hmac_write b ctx buffer len =
     (case HMAC_Update b (deref (hmac_md ctx)) buffer len of
        (r, m1) \<Rightarrow> (OK, ctx\<lparr>hmac_md := Ptr (addr (hmac_md ctx)) m1\<rparr>))"

definition crypt_hmac_final ::
  "('md, 'hm, 'cc, 'id) backend \<Rightarrow> ('hm, 'id) crypt_hmac \<Rightarrow> bytes \<Rightarrow> nat \<Rightarrow> bytes
     \<Rightarrow> (ret \<times> bytes \<times> bytes \<times> ('hm, 'id) crypt_hmac) option" where
  "crypt_hmac_final b ctx buffer len tmp0 =
     (if len > c_size_t (hmac_hash_len ctx) then Some (ERR EINVAL, buffer, tmp0, ctx)
      else
        case HMAC_Final b (deref (hmac_md ctx)) tmp0 of
          (r, tmp, tmp_len, m1) \<Rightarrow>
            case memcpy buffer tmp len of
              None \<Rightarrow> None
            | Some buffer1 \<Rightarrow>
                if tmp_len < len
                then Some (ERR EINVAL, buffer1, crypt_backend_memzero tmp EVP_MAX_MD_SIZE,
                           ctx\<lparr>hmac_md := Ptr (addr (hmac_md ctx)) m1\<rparr>)
                else Some (OK, buffer1, crypt_backend_memzero tmp EVP_MAX_MD_SIZE,
                           crypt_hmac_restart b (ctx\<lparr>hmac_md := Ptr (addr (hmac_md ctx)) m1\<rparr>)))"

subsection \<open>PBKDF\<close>

text \<open>
  \<^verbatim>\<open>crypt_pbkdf\<close>. \<open>kdf\<close> is tested for \<^verbatim>\<open>NULL\<close>, so it is an option. The result is the
  return value and the contents of the caller's \<^verbatim>\<open>key\<close> buffer. The four \<^verbatim>\<open>(int)\<close> casts
  of the call to \<^verbatim>\<open>PKCS5_PBKDF2_HMAC\<close> are \<open>c_int\<close>.
\<close>

definition crypt_pbkdf ::
  "('md, 'hm, 'cc, 'id) backend \<Rightarrow> string option \<Rightarrow> string \<Rightarrow> bytes \<Rightarrow> nat \<Rightarrow> bytes \<Rightarrow> nat
     \<Rightarrow> bytes \<Rightarrow> nat \<Rightarrow> nat \<Rightarrow> nat \<Rightarrow> nat \<Rightarrow> ret \<times> bytes" where
  "crypt_pbkdf b kdf hash password password_length salt salt_length key key_length
       iterations memory parallel =
     (case kdf of
        None \<Rightarrow> (ERR EINVAL, key)
      | Some k \<Rightarrow>
          if strcmp k ''pbkdf2'' = 0 then
            (case EVP_get_digestbyname b hash of
               None \<Rightarrow> (ERR EINVAL, key)
             | Some hid \<Rightarrow>
                 (case PKCS5_PBKDF2_HMAC b password (c_int password_length)
                         salt (c_int salt_length) (c_int iterations) hid
                         (c_int key_length) key of
                    (r, key1) \<Rightarrow> (if r = 0 then ERR EINVAL else OK, key1)))
          else if strncmp k ''argon2'' 6 = 0 then
            argon2 b k password password_length salt salt_length key key_length
              iterations memory parallel
          else (ERR EINVAL, key))"

subsection \<open>Block cipher\<close>

record 'cc crypt_cipher =
  hd_enc :: "'cc ptr option"
  hd_dec :: "'cc ptr option"

definition crypt_cipher_destroy :: "'cc crypt_cipher ptr option \<Rightarrow> heap \<Rightarrow> heap" where
  "crypt_cipher_destroy ctx hp =
     (case ctx of
        None \<Rightarrow> hp
      | Some p \<Rightarrow>
          free (Some (addr p))
            (EVP_CIPHER_CTX_free (hd_dec (deref p))
               (EVP_CIPHER_CTX_free (hd_enc (deref p)) hp)))"

text \<open>
  \<^verbatim>\<open>crypt_cipher_init\<close>. \<open>ctx\<close> is what the caller's \<^verbatim>\<open>*ctx\<close> holds before the call. Both
  contexts are requested before either is tested; \<^verbatim>\<open>||\<close> does not evaluate its second
  operand when the first one decides.
\<close>

definition crypt_cipher_init ::
  "('md, 'hm, 'cc, 'id) backend \<Rightarrow> 'cc crypt_cipher ptr option \<Rightarrow> string \<Rightarrow> string \<Rightarrow> bytes
     \<Rightarrow> nat \<Rightarrow> heap \<Rightarrow> ret \<times> 'cc crypt_cipher ptr option \<times> heap" where
  "crypt_cipher_init b ctx name mode key key_length hp =
     (case crypt_cipher_init_type name mode key_length of
        Inl e \<Rightarrow> (ERR e, ctx, hp)
      | Inr type \<Rightarrow>
          (case malloc hp of
             (None, hp1) \<Rightarrow> (ERR ENOMEM, ctx, hp1)
           | (Some h, hp1) \<Rightarrow>
               (case EVP_CIPHER_CTX_new b hp1 of
                  (enc, hp2) \<Rightarrow>
                    (case EVP_CIPHER_CTX_new b hp2 of
                       (dec, hp3) \<Rightarrow>
                         (case (enc, dec) of
                            (Some e, Some d) \<Rightarrow>
                              (case EVP_EncryptInit_ex b (deref e) (Some type) (Some key) None of
                                 (r1, e1) \<Rightarrow>
                                   if r1 \<noteq> 1 then
                                     (ERR EINVAL, ctx,
                                      crypt_cipher_destroy
                                        (Some (Ptr h \<lparr>hd_enc = Some (Ptr (addr e) e1),
                                                      hd_dec = Some d\<rparr>)) hp3)
                                   else
                                     (case EVP_DecryptInit_ex b (deref d) (Some type) (Some key) None of
                                        (r2, d1) \<Rightarrow>
                                          if r2 \<noteq> 1 then
                                            (ERR EINVAL, ctx,
                                             crypt_cipher_destroy
                                               (Some (Ptr h \<lparr>hd_enc = Some (Ptr (addr e) e1),
                                                             hd_dec = Some (Ptr (addr d) d1)\<rparr>)) hp3)
                                          else
                                            (case EVP_CIPHER_CTX_set_padding b e1 0 of
                                               (r3, e2) \<Rightarrow>
                                                 if r3 \<noteq> 1 then
                                                   (ERR EINVAL, ctx,
                                                    crypt_cipher_destroy
                                                      (Some (Ptr h \<lparr>hd_enc = Some (Ptr (addr e) e2),
                                                                    hd_dec = Some (Ptr (addr d) d1)\<rparr>))
                                                      hp3)
                                                 else
                                                   (case EVP_CIPHER_CTX_set_padding b d1 0 of
                                                      (r4, d2) \<Rightarrow>
                                                        if r4 \<noteq> 1 then
                                                          (ERR EINVAL, ctx,
                                                           crypt_cipher_destroy
                                                             (Some (Ptr h
                                                                \<lparr>hd_enc = Some (Ptr (addr e) e2),
                                                                 hd_dec = Some (Ptr (addr d) d2)\<rparr>))
                                                             hp3)
                                                        else
                                                          (OK,
                                                           Some (Ptr h
                                                             \<lparr>hd_enc = Some (Ptr (addr e) e2),
                                                              hd_dec = Some (Ptr (addr d) d2)\<rparr>),
                                                           hp3)))))
                          | _ \<Rightarrow>
                              (ERR EINVAL, ctx,
                               crypt_cipher_destroy
                                 (Some (Ptr h \<lparr>hd_enc = enc, hd_dec = dec\<rparr>)) hp3))))))"

text \<open>
  \<^verbatim>\<open>crypt_cipher_encrypt\<close> and \<^verbatim>\<open>crypt_cipher_decrypt\<close>. \<open>inp\<close> and \<open>out\<close> are the
  caller's two buffers; the result holds the return value, the output buffer and the
  session. The library's first write goes to \<^verbatim>\<open>out\<close>, its second to \<^verbatim>\<open>out + len\<close>.
  A \<^verbatim>\<open>NULL\<close> context and a write past the end of \<^verbatim>\<open>out\<close> are undefined behaviour in C
  and \<open>None\<close> here. The C parameter \<^verbatim>\<open>length\<close> is \<open>len\<close>; it is a \<^verbatim>\<open>size_t\<close> and the
  argument for the \<^verbatim>\<open>int inl\<close> of the library's \<open>Update\<close>, which receives \<open>c_int len\<close>.
  \<^verbatim>\<open>iv_length\<close> is not used.
\<close>

definition crypt_cipher_encrypt ::
  "('md, 'hm, 'cc, 'id) backend \<Rightarrow> 'cc crypt_cipher \<Rightarrow> bytes \<Rightarrow> bytes \<Rightarrow> nat \<Rightarrow> bytes option
     \<Rightarrow> nat \<Rightarrow> (ret \<times> bytes \<times> 'cc crypt_cipher) option" where
  "crypt_cipher_encrypt b ctx inp out len iv iv_length =
     (case hd_enc ctx of
        None \<Rightarrow> None
      | Some e \<Rightarrow>
          (case EVP_EncryptInit_ex b (deref e) None None iv of
             (r1, e1) \<Rightarrow>
               if r1 \<noteq> 1 then Some (ERR EINVAL, out, ctx\<lparr>hd_enc := Some (Ptr (addr e) e1)\<rparr>)
               else
                 (case EVP_EncryptUpdate b e1 inp (c_int len) of
                    (r2, o1, e2) \<Rightarrow>
                      (case store_at out 0 o1 of
                         None \<Rightarrow> None
                       | Some out1 \<Rightarrow>
                           if r2 \<noteq> 1
                           then Some (ERR EINVAL, out1, ctx\<lparr>hd_enc := Some (Ptr (addr e) e2)\<rparr>)
                           else
                             (case EVP_EncryptFinal b e2 of
                                (r3, o2, e3) \<Rightarrow>
                                  (case store_at out1 (length o1) o2 of
                                     None \<Rightarrow> None
                                   | Some out2 \<Rightarrow>
                                       Some (if r3 \<noteq> 1 then ERR EINVAL else OK, out2,
                                             ctx\<lparr>hd_enc := Some (Ptr (addr e) e3)\<rparr>)))))))"

definition crypt_cipher_decrypt ::
  "('md, 'hm, 'cc, 'id) backend \<Rightarrow> 'cc crypt_cipher \<Rightarrow> bytes \<Rightarrow> bytes \<Rightarrow> nat \<Rightarrow> bytes option
     \<Rightarrow> nat \<Rightarrow> (ret \<times> bytes \<times> 'cc crypt_cipher) option" where
  "crypt_cipher_decrypt b ctx inp out len iv iv_length =
     (case hd_dec ctx of
        None \<Rightarrow> None
      | Some d \<Rightarrow>
          (case EVP_DecryptInit_ex b (deref d) None None iv of
             (r1, d1) \<Rightarrow>
               if r1 \<noteq> 1 then Some (ERR EINVAL, out, ctx\<lparr>hd_dec := Some (Ptr (addr d) d1)\<rparr>)
               else
                 (case EVP_DecryptUpdate b d1 inp (c_int len) of
                    (r2, o1, d2) \<Rightarrow>
                      (case store_at out 0 o1 of
                         None \<Rightarrow> None
                       | Some out1 \<Rightarrow>
                           if r2 \<noteq> 1
                           then Some (ERR EINVAL, out1, ctx\<lparr>hd_dec := Some (Ptr (addr d) d2)\<rparr>)
                           else
                             (case EVP_DecryptFinal b d2 of
                                (r3, o2, d3) \<Rightarrow>
                                  (case store_at out1 (length o1) o2 of
                                     None \<Rightarrow> None
                                   | Some out2 \<Rightarrow>
                                       Some (if r3 \<noteq> 1 then ERR EINVAL else OK, out2,
                                             ctx\<lparr>hd_dec := Some (Ptr (addr d) d3)\<rparr>)))))))"

subsection \<open>What the properties assume of the library\<close>

text \<open>
  \<^verbatim>\<open>EVP_DigestInit_ex\<close> sets a digest context up from scratch: what it returns and what
  it leaves in the context depend on the digest only, not on what the context held.
\<close>

definition digest_init_resets :: "('md, 'hm, 'cc, 'id) backend \<Rightarrow> bool" where
  "digest_init_resets b \<longleftrightarrow>
     (\<forall>m m' hid. EVP_DigestInit_ex b m hid = EVP_DigestInit_ex b m' hid)"

text \<open>
  A caller's sequence of \<^verbatim>\<open>crypt_hmac_write\<close> calls, each with a buffer and a length, and
  the message these calls feed: the first \<open>n\<close> bytes of each buffer, in order.
\<close>

fun crypt_hmac_writes ::
  "('md, 'hm, 'cc, 'id) backend \<Rightarrow> ('hm, 'id) crypt_hmac \<Rightarrow> (bytes \<times> nat) list
     \<Rightarrow> ('hm, 'id) crypt_hmac" where
  "crypt_hmac_writes b ctx [] = ctx"
| "crypt_hmac_writes b ctx ((buffer, len) # rest) =
     crypt_hmac_writes b (snd (crypt_hmac_write b ctx buffer len)) rest"

fun written :: "(bytes \<times> nat) list \<Rightarrow> bytes" where
  "written [] = []"
| "written ((buffer, len) # rest) = take len buffer @ written rest"

text \<open>
  The HMAC interface of the library, stated against a function \<open>mac\<close> (digest, key and
  message to tag) and a reading \<open>view\<close> of an \<^verbatim>\<open>HMAC_CTX\<close> as the digest, the key and the
  message fed so far:
  \<^item> \<^verbatim>\<open>HMAC_Init_ex\<close> with a key and a length that is not negative installs the digest
    and that many bytes of the key and starts an empty message;
  \<^item> \<^verbatim>\<open>HMAC_Init_ex\<close> with a \<^verbatim>\<open>NULL\<close> key and the context's own digest keeps the key and
    starts an empty message;
  \<^item> \<^verbatim>\<open>HMAC_Update\<close> appends the bytes it is given;
  \<^item> \<^verbatim>\<open>HMAC_Final\<close> writes the tag of the message to the start of the scratch array,
    reports its length, and keeps digest and key;
  \<^item> a tag has the size \<^verbatim>\<open>EVP_MD_size\<close> gives for the digest, at most
    \<^verbatim>\<open>EVP_MAX_MD_SIZE\<close>.
\<close>

definition hmac_contract ::
  "('md, 'hm, 'cc, 'id) backend \<Rightarrow> ('id \<Rightarrow> bytes \<Rightarrow> bytes \<Rightarrow> bytes)
     \<Rightarrow> ('hm \<Rightarrow> 'id \<times> bytes \<times> bytes) \<Rightarrow> bool" where
  "hmac_contract b mac view \<longleftrightarrow>
     (\<forall>m k n hid. 0 \<le> n \<longrightarrow>
            view (snd (HMAC_Init_ex b m (Some k) n hid)) = (hid, take (nat n) k, []))
     \<and> (\<forall>m hid. fst (view m) = hid \<longrightarrow>
            view (snd (HMAC_Init_ex b m None 0 hid)) = (hid, fst (snd (view m)), []))
     \<and> (\<forall>m buf n.
            view (snd (HMAC_Update b m buf n))
              = (fst (view m), fst (snd (view m)), snd (snd (view m)) @ take n buf))
     \<and> (\<forall>m tmp.
            case HMAC_Final b m tmp of
              (r, tmp', tmp_len, m') \<Rightarrow>
                tmp_len = length (mac (fst (view m)) (fst (snd (view m))) (snd (snd (view m))))
                \<and> take tmp_len tmp' = mac (fst (view m)) (fst (snd (view m))) (snd (snd (view m)))
                \<and> fst (view m') = fst (view m)
                \<and> fst (snd (view m')) = fst (snd (view m)))
     \<and> (\<forall>hid k msg.
            EVP_MD_size b hid = int (length (mac hid k msg))
            \<and> length (mac hid k msg) \<le> EVP_MAX_MD_SIZE)"

text \<open>
  The cipher interface of the library, stated against the two directions \<open>enc\<close> and
  \<open>dec\<close> of the cipher (cipher, key, IV and input to output) and a reading \<open>view\<close> of an
  \<^verbatim>\<open>EVP_CIPHER_CTX\<close> as its cipher, key, IV, padding flag and the direction its key was
  set up for (\<open>cenc\<close>: encryption); \<open>fits\<close> tells which input lengths a cipher takes in
  one call (XTS bounds the length of a data unit):
  \<^item> \<^verbatim>\<open>EVP_EncryptInit_ex\<close> and \<^verbatim>\<open>EVP_DecryptInit_ex\<close> with a cipher and a key, when they
    return 1, install both, each for its own direction;
  \<^item> \<^verbatim>\<open>EVP_CIPHER_CTX_set_padding\<close> with 0, when it returns 1, clears the padding flag
    and keeps the rest;
  \<^item> on a context that has a cipher and a key for its direction, an init call with an
    IV and nothing else returns 1, sets the IV and keeps the rest;
  \<^item> on a context with a cipher, a key for its direction, the padding flag cleared and
    an \<^verbatim>\<open>int\<close> input length that is not negative, a multiple of the block size and
    one the cipher takes, \<open>Update\<close> returns 1 and writes the transformed input, and the
    \<open>Final\<close> call after it returns 1 and writes nothing; cipher, key, direction and
    padding flag stay;
  \<^item> on inputs whose length is a multiple of the block size, \<open>enc\<close> keeps the length and
    \<open>dec\<close> undoes \<open>enc\<close> under the same cipher, key and IV.
\<close>

definition AES_BLOCK_SIZE :: nat where
  "AES_BLOCK_SIZE = 16"

record cipher_view =
  ctype :: "evp_cipher option"
  ckey :: bytes
  civ :: "bytes option"
  cpad :: bool
  cenc :: bool

definition cipher_contract ::
  "('md, 'hm, 'cc, 'id) backend
     \<Rightarrow> (evp_cipher \<Rightarrow> bytes \<Rightarrow> bytes option \<Rightarrow> bytes \<Rightarrow> bytes)
     \<Rightarrow> (evp_cipher \<Rightarrow> bytes \<Rightarrow> bytes option \<Rightarrow> bytes \<Rightarrow> bytes)
     \<Rightarrow> ('cc \<Rightarrow> cipher_view) \<Rightarrow> (evp_cipher \<Rightarrow> nat \<Rightarrow> bool) \<Rightarrow> bool" where
  "cipher_contract b enc dec view fits \<longleftrightarrow>
     (\<forall>c t k c'. EVP_EncryptInit_ex b c (Some t) (Some k) None = (1, c')
          \<longrightarrow> ctype (view c') = Some t \<and> ckey (view c') = k \<and> cenc (view c'))
     \<and> (\<forall>c t k c'. EVP_DecryptInit_ex b c (Some t) (Some k) None = (1, c')
          \<longrightarrow> ctype (view c') = Some t \<and> ckey (view c') = k \<and> \<not> cenc (view c'))
     \<and> (\<forall>c c'. EVP_CIPHER_CTX_set_padding b c 0 = (1, c')
          \<longrightarrow> view c' = (view c)\<lparr>cpad := False\<rparr>)
     \<and> (\<forall>c iv. ctype (view c) \<noteq> None \<and> cenc (view c)
          \<longrightarrow> fst (EVP_EncryptInit_ex b c None None (Some iv)) = 1
            \<and> view (snd (EVP_EncryptInit_ex b c None None (Some iv))) = (view c)\<lparr>civ := Some iv\<rparr>)
     \<and> (\<forall>c iv. ctype (view c) \<noteq> None \<and> \<not> cenc (view c)
          \<longrightarrow> fst (EVP_DecryptInit_ex b c None None (Some iv)) = 1
            \<and> view (snd (EVP_DecryptInit_ex b c None None (Some iv))) = (view c)\<lparr>civ := Some iv\<rparr>)
     \<and> (\<forall>c t inp n. ctype (view c) = Some t \<and> \<not> cpad (view c) \<and> cenc (view c)
              \<and> 0 \<le> n \<and> AES_BLOCK_SIZE dvd nat n \<and> fits t (nat n) \<and> nat n \<le> length inp
          \<longrightarrow> (case EVP_EncryptUpdate b c inp n of
                 (r, out, c') \<Rightarrow>
                   r = 1 \<and> out = enc t (ckey (view c)) (civ (view c)) (take (nat n) inp)
                   \<and> (case EVP_EncryptFinal b c' of
                        (r', out', c'') \<Rightarrow>
                          r' = 1 \<and> out' = [] \<and> ctype (view c'') = Some t
                          \<and> ckey (view c'') = ckey (view c) \<and> \<not> cpad (view c'')
                          \<and> cenc (view c''))))
     \<and> (\<forall>c t inp n. ctype (view c) = Some t \<and> \<not> cpad (view c) \<and> \<not> cenc (view c)
              \<and> 0 \<le> n \<and> AES_BLOCK_SIZE dvd nat n \<and> fits t (nat n) \<and> nat n \<le> length inp
          \<longrightarrow> (case EVP_DecryptUpdate b c inp n of
                 (r, out, c') \<Rightarrow>
                   r = 1 \<and> out = dec t (ckey (view c)) (civ (view c)) (take (nat n) inp)
                   \<and> (case EVP_DecryptFinal b c' of
                        (r', out', c'') \<Rightarrow>
                          r' = 1 \<and> out' = [] \<and> ctype (view c'') = Some t
                          \<and> ckey (view c'') = ckey (view c) \<and> \<not> cpad (view c'')
                          \<and> \<not> cenc (view c''))))
     \<and> (\<forall>t k iv p. AES_BLOCK_SIZE dvd length p
          \<longrightarrow> length (enc t k iv p) = length p \<and> dec t k iv (enc t k iv p) = p)"

text \<open>
  A session whose two contexts hold the cipher \<open>t\<close> and the key \<open>k\<close> with the padding
  flag cleared, \<^verbatim>\<open>hd_enc\<close> set up for encryption and \<^verbatim>\<open>hd_dec\<close> for decryption.
\<close>

definition armed :: "('cc \<Rightarrow> cipher_view) \<Rightarrow> evp_cipher \<Rightarrow> bytes \<Rightarrow> 'cc crypt_cipher \<Rightarrow> bool" where
  "armed view t k s \<longleftrightarrow>
     (case (hd_enc s, hd_dec s) of
        (Some e, Some d) \<Rightarrow>
          ctype (view (deref e)) = Some t \<and> ckey (view (deref e)) = k \<and> \<not> cpad (view (deref e))
          \<and> cenc (view (deref e))
          \<and> ctype (view (deref d)) = Some t \<and> ckey (view (deref d)) = k \<and> \<not> cpad (view (deref d))
          \<and> \<not> cenc (view (deref d))
      | _ \<Rightarrow> False)"

subsection \<open>A small library for concrete runs\<close>

text \<open>
  A library instance on which the translated functions can be run: it is what the
  theorems with a hypothesis on the library are instantiated with, and its variants with
  a failing call are where the failure paths are evaluated. Its digest \<open>sum2\<close> has two
  bytes (the sum of the message bytes plus one, and the message length), its MAC is
  that digest of the key followed by the message, and its cipher adds a byte derived
  from key and IV to every byte. A digest context is the message so far, a MAC context
  the digest, the key and the message so far, a cipher context the cipher, the key, the
  IV, the padding flag and the direction the key was given for. Like the library, it
  refuses a negative \<^verbatim>\<open>int\<close> length (the call returns 0 and changes nothing), and an
  \<open>Update\<close> on a context whose key was given for the other direction.
\<close>

definition toy_digest :: "bytes \<Rightarrow> bytes" where
  "toy_digest msg = [sum_list msg + 1, of_nat (length msg)]"

definition toy_mac :: "bytes \<Rightarrow> bytes \<Rightarrow> bytes" where
  "toy_mac k msg = toy_digest (k @ msg)"

definition toy_pad :: "bytes \<Rightarrow> bytes \<Rightarrow> byte" where
  "toy_pad k iv = sum_list k + sum_list iv + 1"

type_synonym toy_cipher_ctx = "evp_cipher option \<times> bytes \<times> bytes \<times> bool \<times> bool"

definition toy_cipher_init ::
  "bool \<Rightarrow> toy_cipher_ctx \<Rightarrow> evp_cipher option \<Rightarrow> bytes option \<Rightarrow> bytes option
     \<Rightarrow> int \<times> toy_cipher_ctx" where
  "toy_cipher_init encrypting c type key iv =
     (case c of
        (t0, k0, iv0, pad, dir) \<Rightarrow>
          (1, (case type of None \<Rightarrow> t0 | Some t \<Rightarrow> Some t,
               case key of None \<Rightarrow> k0 | Some k \<Rightarrow> k,
               case iv of None \<Rightarrow> iv0 | Some v \<Rightarrow> v,
               pad,
               case key of None \<Rightarrow> dir | Some k \<Rightarrow> encrypting)))"

definition toy_encrypt_update :: "toy_cipher_ctx \<Rightarrow> bytes \<Rightarrow> int \<Rightarrow> int \<times> bytes \<times> toy_cipher_ctx" where
  "toy_encrypt_update c inp n =
     (case c of
        (t, k, iv, pad, dir) \<Rightarrow>
          if n < 0 \<or> \<not> dir then (0, [], c)
          else (1, map (\<lambda>x. x + toy_pad k iv) (take (nat n) inp), c))"

definition toy_decrypt_update :: "toy_cipher_ctx \<Rightarrow> bytes \<Rightarrow> int \<Rightarrow> int \<times> bytes \<times> toy_cipher_ctx" where
  "toy_decrypt_update c inp n =
     (case c of
        (t, k, iv, pad, dir) \<Rightarrow>
          if n < 0 \<or> dir then (0, [], c)
          else (1, map (\<lambda>x. x - toy_pad k iv) (take (nat n) inp), c))"

definition toy :: "(bytes, nat \<times> bytes \<times> bytes, toy_cipher_ctx, nat) backend" where
  "toy =
     \<lparr>EVP_get_digestbyname = (\<lambda>name. if name = ''sum2'' then Some 2 else None),
      EVP_MD_size = (\<lambda>hid. 2),
      EVP_MD_CTX_init = [],
      EVP_DigestInit_ex = (\<lambda>m hid. (1, [])),
      EVP_DigestUpdate = (\<lambda>m buf n. (1, m @ take n buf)),
      EVP_DigestFinal_ex = (\<lambda>m tmp. (1, toy_digest m @ drop 2 tmp, 2, m)),
      HMAC_CTX_init = (0, [], []),
      HMAC_Init_ex =
        (\<lambda>m key n hid.
           case key of
             None \<Rightarrow> (1, (hid, fst (snd m), []))
           | Some k \<Rightarrow> if n < 0 then (0, m) else (1, (hid, take (nat n) k, []))),
      HMAC_Update = (\<lambda>m buf n. (1, (fst m, fst (snd m), snd (snd m) @ take n buf))),
      HMAC_Final =
        (\<lambda>m tmp. (1, toy_mac (fst (snd m)) (snd (snd m)) @ drop 2 tmp, 2, m)),
      PKCS5_PBKDF2_HMAC =
        (\<lambda>pw pwl salt sl iter hid kl key.
           if iter < 1 \<or> kl < 0 then (0, key)
           else (1, map (\<lambda>x. sum_list pw + sum_list salt + of_int iter) (take (nat kl) key)
                      @ drop (nat kl) key)),
      argon2 =
        (\<lambda>k pw pwl salt sl key kl iter mem par.
           (OK, map (\<lambda>x. sum_list pw + sum_list salt + of_nat (iter + mem + par)) (take kl key)
                  @ drop kl key)),
      EVP_CIPHER_CTX_init = (None, [], [], True, False),
      EVP_EncryptInit_ex = toy_cipher_init True,
      EVP_DecryptInit_ex = toy_cipher_init False,
      EVP_CIPHER_CTX_set_padding =
        (\<lambda>c p. case c of (t, k, iv, pad, dir) \<Rightarrow> (1, (t, k, iv, p \<noteq> 0, dir))),
      EVP_EncryptUpdate = toy_encrypt_update,
      EVP_EncryptFinal = (\<lambda>c. (1, [], c)),
      EVP_DecryptUpdate = toy_decrypt_update,
      EVP_DecryptFinal = (\<lambda>c. (1, [], c))\<rparr>"

text \<open>How the small library's cipher contexts are read, and its cipher.\<close>

definition toy_cipher_view :: "toy_cipher_ctx \<Rightarrow> cipher_view" where
  "toy_cipher_view c =
     (case c of
        (t, k, iv, pad, dir) \<Rightarrow> \<lparr>ctype = t, ckey = k, civ = Some iv, cpad = pad, cenc = dir\<rparr>)"

definition toy_enc :: "evp_cipher \<Rightarrow> bytes \<Rightarrow> bytes option \<Rightarrow> bytes \<Rightarrow> bytes" where
  "toy_enc t k iv p = map (\<lambda>x. x + toy_pad k (case iv of None \<Rightarrow> [] | Some v \<Rightarrow> v)) p"

definition toy_dec :: "evp_cipher \<Rightarrow> bytes \<Rightarrow> bytes option \<Rightarrow> bytes \<Rightarrow> bytes" where
  "toy_dec t k iv p = map (\<lambda>x. x - toy_pad k (case iv of None \<Rightarrow> [] | Some v \<Rightarrow> v)) p"

text \<open>An allocator state with nothing allocated, in which every request succeeds.\<close>

definition heap0 :: heap where
  "heap0 = \<lparr>live = [], script = [], faulted = False\<rparr>"

text \<open>The same library with a MAC update that fails and leaves the context alone.\<close>

definition toy_hmac_update_fails :: "(bytes, nat \<times> bytes \<times> bytes, toy_cipher_ctx, nat) backend" where
  "toy_hmac_update_fails = toy\<lparr>HMAC_Update := (\<lambda>m buf n. (0, m))\<rparr>"

text \<open>
  The same library with a digest finalisation that fails after it has written the
  digest to the scratch array.
\<close>

definition toy_digest_final_fails :: "(bytes, nat \<times> bytes \<times> bytes, toy_cipher_ctx, nat) backend" where
  "toy_digest_final_fails =
     toy\<lparr>EVP_DigestFinal_ex := (\<lambda>m tmp. (0, toy_digest m @ drop 2 tmp, 0, m))\<rparr>"

text \<open>
  The addresses a cipher session owns: those of its encrypt and decrypt contexts, as far
  as they are not \<^verbatim>\<open>NULL\<close>, and that of the structure itself.
\<close>

definition session_addrs :: "'cc crypt_cipher ptr \<Rightarrow> nat list" where
  "session_addrs p =
     (case hd_enc (deref p) of None \<Rightarrow> [] | Some e \<Rightarrow> [addr e])
     @ (case hd_dec (deref p) of None \<Rightarrow> [] | Some d \<Rightarrow> [addr d])
     @ [addr p]"

section \<open>Properties\<close>

subsection \<open>String comparison\<close>

lemma strcmp_eq_0_iff: "strcmp s t = 0 \<longleftrightarrow> s = t"
  by (induction s t rule: strcmp.induct) auto

lemma strncmp_eq_0_iff: "strncmp s t n = 0 \<longleftrightarrow> take n s = take n t"
  by (induction s t n rule: strncmp.induct) auto

subsection \<open>Cipher resolution\<close>

lemma crypt_cipher_init_type_alt:
  "crypt_cipher_init_type name mode key_length =
     (if name \<noteq> ''aes'' then Inl ENOTSUP
      else if mode = ''xts'' then
        (if key_length = 32 then Inr EVP_aes_128_xts
         else if key_length = 64 then Inr EVP_aes_256_xts else Inl EINVAL)
      else if mode = ''cbc'' then
        (if key_length = 16 then Inr EVP_aes_128_cbc
         else if key_length = 24 then Inr EVP_aes_192_cbc
         else if key_length = 32 then Inr EVP_aes_256_cbc else Inl EINVAL)
      else if mode = ''ecb'' then
        (if key_length = 16 then Inr EVP_aes_128_ecb
         else if key_length = 24 then Inr EVP_aes_192_ecb
         else if key_length = 32 then Inr EVP_aes_256_ecb else Inl EINVAL)
      else Inl ENOTSUP)"
  unfolding crypt_cipher_init_type_def strcmp_eq_0_iff by simp

text \<open>
  C2. Cipher resolution succeeds exactly for the name \<open>aes\<close> with one of the eight
  supported (mode, key length) pairs. The claim lets every other request for \<open>aes\<close>
  fail with UnsupportedParameters and only a name other than \<open>aes\<close> with
  UnsupportedAlgorithm. The code returns \<^verbatim>\<open>-ENOTSUP\<close> for a name other than \<open>aes\<close>
  and, through the final \<^verbatim>\<open>else\<close> of the mode chain, the same \<^verbatim>\<open>-ENOTSUP\<close> for \<open>aes\<close>
  with a mode other than xts, cbc and ecb, whatever the key length; only a known mode
  with a key length outside its list returns \<^verbatim>\<open>-EINVAL\<close>. The counterexample shows the
  three return values side by side: the unknown mode \<open>ctr\<close> gets the return value of
  the unknown cipher \<open>des\<close>, not that of the wrong key length 17.
\<close>

theorem crypt_cipher_init_unknown_mode_counterexample:
  "crypt_cipher_init_type ''aes'' ''ctr'' 16 = Inl ENOTSUP
   \<and> crypt_cipher_init_type ''des'' ''cbc'' 16 = Inl ENOTSUP
   \<and> crypt_cipher_init_type ''aes'' ''cbc'' 17 = Inl EINVAL"
  by (simp add: crypt_cipher_init_type_alt)

text \<open>
  C2, as amended. Resolution succeeds exactly for \<open>aes\<close> with a supported pair; a name
  other than \<open>aes\<close> fails with \<^verbatim>\<open>-ENOTSUP\<close>; \<open>aes\<close> with a mode other than xts, cbc and
  ecb fails with \<^verbatim>\<open>-ENOTSUP\<close> too; \<open>aes\<close> with one of the three modes and a key length
  outside that mode's list fails with \<^verbatim>\<open>-EINVAL\<close>; and a failed resolution is what
  \<^verbatim>\<open>crypt_cipher_init\<close> returns, with nothing allocated and the caller's handle as it
  was.
\<close>

theorem crypt_cipher_init_resolution:
  "((\<exists>type. crypt_cipher_init_type name mode key_length = Inr type)
      \<longleftrightarrow> name = ''aes'' \<and> (mode, key_length) \<in> supported_pairs)
   \<and> (name \<noteq> ''aes'' \<longrightarrow> crypt_cipher_init_type name mode key_length = Inl ENOTSUP)
   \<and> (name = ''aes'' \<and> mode \<notin> known_modes
        \<longrightarrow> crypt_cipher_init_type name mode key_length = Inl ENOTSUP)
   \<and> (name = ''aes'' \<and> mode \<in> known_modes \<and> (mode, key_length) \<notin> supported_pairs
        \<longrightarrow> crypt_cipher_init_type name mode key_length = Inl EINVAL)
   \<and> (\<forall>e. crypt_cipher_init_type name mode key_length = Inl e
        \<longrightarrow> crypt_cipher_init b ctx name mode key key_length hp = (ERR e, ctx, hp))"
proof -
  have succeeds: "(\<exists>type. crypt_cipher_init_type name mode key_length = Inr type)
      \<longleftrightarrow> name = ''aes'' \<and> (mode, key_length) \<in> supported_pairs"
    by (simp add: crypt_cipher_init_type_alt supported_pairs_def)
  have other_name: "name \<noteq> ''aes'' \<longrightarrow> crypt_cipher_init_type name mode key_length = Inl ENOTSUP"
    by (simp add: crypt_cipher_init_type_alt)
  have other_mode: "name = ''aes'' \<and> mode \<notin> known_modes
        \<longrightarrow> crypt_cipher_init_type name mode key_length = Inl ENOTSUP"
    by (simp add: crypt_cipher_init_type_alt known_modes_def)
  have other_length:
    "name = ''aes'' \<and> mode \<in> known_modes \<and> (mode, key_length) \<notin> supported_pairs
        \<longrightarrow> crypt_cipher_init_type name mode key_length = Inl EINVAL"
    by (auto simp add: crypt_cipher_init_type_alt known_modes_def supported_pairs_def)
  have returned: "\<forall>e. crypt_cipher_init_type name mode key_length = Inl e
        \<longrightarrow> crypt_cipher_init b ctx name mode key key_length hp = (ERR e, ctx, hp)"
    by (simp add: crypt_cipher_init_def)
  from succeeds other_name other_mode other_length returned show ?thesis by blast
qed

theorem crypt_cipher_init_resolution_witness:
  "crypt_cipher_init_type ''des'' ''xts'' 32 = Inl ENOTSUP
   \<and> crypt_cipher_init_type ''aes'' ''gcm'' 32 = Inl ENOTSUP
   \<and> crypt_cipher_init_type ''aes'' ''xts'' 16 = Inl EINVAL
   \<and> crypt_cipher_init toy None ''aes'' ''ecb'' [] 64 heap0 = (ERR EINVAL, None, heap0)
   \<and> (\<exists>type. crypt_cipher_init_type ''aes'' ''xts'' 64 = Inr type)"
  using crypt_cipher_init_resolution [of "''des''" "''xts''" 32 toy None "[]" heap0]
    crypt_cipher_init_resolution [of "''aes''" "''gcm''" 32 toy None "[]" heap0]
    crypt_cipher_init_resolution [of "''aes''" "''xts''" 16 toy None "[]" heap0]
    crypt_cipher_init_resolution [of "''aes''" "''ecb''" 64 toy None "[]" heap0]
    crypt_cipher_init_resolution [of "''aes''" "''xts''" 64 toy None "[]" heap0]
  by (simp add: known_modes_def supported_pairs_def)

subsection \<open>Write\<close>

lemma crypt_hash_write_reports_failure:
  "fst (crypt_hash_write b ctx buffer len)
     = (if fst (EVP_DigestUpdate b (deref (md ctx)) buffer len) \<noteq> 1 then ERR EINVAL else OK)"
  by (simp add: crypt_hash_write_def split: prod.splits)

lemma crypt_hmac_write_always_ok: "fst (crypt_hmac_write b ctx buffer len) = OK"
  by (simp add: crypt_hmac_write_def split: prod.splits)

text \<open>
  C9. A write whose library call fails must not return success. \<^verbatim>\<open>crypt_hash_write\<close>
  tests the result of \<^verbatim>\<open>EVP_DigestUpdate\<close> (\<open>crypt_hash_write_reports_failure\<close>), but
  \<^verbatim>\<open>crypt_hmac_write\<close> drops the result of \<^verbatim>\<open>HMAC_Update\<close> and returns 0 whatever the call
  did (\<open>crypt_hmac_write_always_ok\<close>). Here the library's \<^verbatim>\<open>HMAC_Update\<close> returns 0, its
  failure value, and \<^verbatim>\<open>crypt_hmac_write\<close> returns success.
\<close>

theorem crypt_hmac_write_swallows_failure:
  "fst (HMAC_Update toy_hmac_update_fails (2, [7], []) [1, 2, 3] 3) = 0
   \<and> crypt_hmac_write toy_hmac_update_fails
         \<lparr>hmac_md = Ptr 2 (2, [7], []), hmac_hash_id = 2, hmac_hash_len = 2\<rparr> [1, 2, 3] 3
       = (OK, \<lparr>hmac_md = Ptr 2 (2, [7], []), hmac_hash_id = 2, hmac_hash_len = 2\<rparr>)"
  by (simp add: crypt_hmac_write_def toy_hmac_update_fails_def toy_def)

subsection \<open>The allocator\<close>

lemma le_foldr_max: "a \<in> set as \<Longrightarrow> a \<le> foldr max as (0::nat)"
  by (induction as) auto

lemma fresh_addr_notin: "fresh_addr as \<notin> set as"
  using le_foldr_max [of "fresh_addr as" as] by (auto simp: fresh_addr_def)

lemma malloc_cases:
  "malloc hp = (None, hp\<lparr>script := tl (script hp)\<rparr>)
   \<or> malloc hp = (Some (fresh_addr (live hp)),
                   hp\<lparr>live := fresh_addr (live hp) # live hp, script := tl (script hp)\<rparr>)"
  by (auto simp: malloc_def split: list.splits bool.splits)

text \<open>The definitions that a run of an init function on the small library unfolds.\<close>

lemmas run_defs =
  crypt_hash_init_def crypt_hmac_init_def crypt_cipher_init_def crypt_cipher_destroy_def
  malloc_def free_def fresh_addr_def heap0_def toy_def
  EVP_MD_CTX_new_def EVP_MD_CTX_free_def HMAC_CTX_new_def HMAC_CTX_free_def
  EVP_CIPHER_CTX_new_def EVP_CIPHER_CTX_free_def toy_cipher_init_def
  crypt_cipher_init_type_alt

subsection \<open>The out-parameter of the three init functions\<close>

lemma init_failure_keeps_handle:
  "(fst (crypt_hash_init b hctx name hp) \<noteq> OK
      \<longrightarrow> fst (snd (crypt_hash_init b hctx name hp)) = hctx)
   \<and> (fst (crypt_hmac_init b mctx name key key_length hp) \<noteq> OK
      \<longrightarrow> fst (snd (crypt_hmac_init b mctx name key key_length hp)) = mctx)
   \<and> (fst (crypt_cipher_init b cctx name mode key key_length hp) \<noteq> OK
      \<longrightarrow> fst (snd (crypt_cipher_init b cctx name mode key key_length hp)) = cctx)"
proof (intro conjI)
  show "fst (crypt_hash_init b hctx name hp) \<noteq> OK
      \<longrightarrow> fst (snd (crypt_hash_init b hctx name hp)) = hctx"
    by (simp add: crypt_hash_init_def split: prod.splits option.splits)
  show "fst (crypt_hmac_init b mctx name key key_length hp) \<noteq> OK
      \<longrightarrow> fst (snd (crypt_hmac_init b mctx name key key_length hp)) = mctx"
    by (simp add: crypt_hmac_init_def split: prod.splits option.splits)
  show "fst (crypt_cipher_init b cctx name mode key key_length hp) \<noteq> OK
      \<longrightarrow> fst (snd (crypt_cipher_init b cctx name mode key key_length hp)) = cctx"
    by (simp add: crypt_cipher_init_def split: prod.splits option.splits sum.splits)
qed

lemma init_success_assigns_handle:
  "(fst (crypt_hash_init b hctx name hp) = OK
      \<longrightarrow> (\<exists>c. fst (snd (crypt_hash_init b hctx name hp))
                 = Some (Ptr (fresh_addr (live hp)) c)))
   \<and> (fst (crypt_hmac_init b mctx name key key_length hp) = OK
      \<longrightarrow> (\<exists>c. fst (snd (crypt_hmac_init b mctx name key key_length hp))
                 = Some (Ptr (fresh_addr (live hp)) c)))
   \<and> (fst (crypt_cipher_init b cctx name mode key key_length hp) = OK
      \<longrightarrow> (\<exists>c. fst (snd (crypt_cipher_init b cctx name mode key key_length hp))
                 = Some (Ptr (fresh_addr (live hp)) c)))"
proof (intro conjI)
  show "fst (crypt_hash_init b hctx name hp) = OK
      \<longrightarrow> (\<exists>c. fst (snd (crypt_hash_init b hctx name hp))
                 = Some (Ptr (fresh_addr (live hp)) c))"
    using malloc_cases [of hp]
    by (auto simp add: crypt_hash_init_def split: prod.splits option.splits)
  show "fst (crypt_hmac_init b mctx name key key_length hp) = OK
      \<longrightarrow> (\<exists>c. fst (snd (crypt_hmac_init b mctx name key key_length hp))
                 = Some (Ptr (fresh_addr (live hp)) c))"
    using malloc_cases [of hp]
    by (auto simp add: crypt_hmac_init_def split: prod.splits option.splits)
  show "fst (crypt_cipher_init b cctx name mode key key_length hp) = OK
      \<longrightarrow> (\<exists>c. fst (snd (crypt_cipher_init b cctx name mode key key_length hp))
                 = Some (Ptr (fresh_addr (live hp)) c))"
    using malloc_cases [of hp]
    by (auto simp add: crypt_cipher_init_def split: prod.splits option.splits sum.splits)
qed

text \<open>
  C10. On every error return of \<^verbatim>\<open>crypt_hash_init\<close>, \<^verbatim>\<open>crypt_hmac_init\<close> and
  \<^verbatim>\<open>crypt_cipher_init\<close> the caller's \<^verbatim>\<open>*ctx\<close> holds what it held before the call; on the
  success return it holds the pointer to the structure that the function's first
  \<^verbatim>\<open>malloc\<close> returned.
\<close>

theorem init_assigns_handle_only_on_success:
  "(fst (crypt_hash_init b hctx name hp) \<noteq> OK
      \<longrightarrow> fst (snd (crypt_hash_init b hctx name hp)) = hctx)
   \<and> (fst (crypt_hmac_init b mctx name key key_length hp) \<noteq> OK
      \<longrightarrow> fst (snd (crypt_hmac_init b mctx name key key_length hp)) = mctx)
   \<and> (fst (crypt_cipher_init b cctx name mode key key_length hp) \<noteq> OK
      \<longrightarrow> fst (snd (crypt_cipher_init b cctx name mode key key_length hp)) = cctx)
   \<and> (fst (crypt_hash_init b hctx name hp) = OK
      \<longrightarrow> (\<exists>c. fst (snd (crypt_hash_init b hctx name hp))
                 = Some (Ptr (fresh_addr (live hp)) c)))
   \<and> (fst (crypt_hmac_init b mctx name key key_length hp) = OK
      \<longrightarrow> (\<exists>c. fst (snd (crypt_hmac_init b mctx name key key_length hp))
                 = Some (Ptr (fresh_addr (live hp)) c)))
   \<and> (fst (crypt_cipher_init b cctx name mode key key_length hp) = OK
      \<longrightarrow> (\<exists>c. fst (snd (crypt_cipher_init b cctx name mode key key_length hp))
                 = Some (Ptr (fresh_addr (live hp)) c)))"
  using init_failure_keeps_handle [of b hctx name hp mctx key key_length cctx mode]
    init_success_assigns_handle [of b hctx name hp mctx key key_length cctx mode]
  by blast

theorem init_assigns_handle_only_on_success_witness:
  "crypt_hash_init toy (Some (Ptr 7 \<lparr>md = Ptr 8 [1], hash_id = 2, hash_len = 2\<rparr>)) ''md5'' heap0
     = (ERR EINVAL, Some (Ptr 7 \<lparr>md = Ptr 8 [1], hash_id = 2, hash_len = 2\<rparr>), heap0)
   \<and> fst (crypt_hmac_init toy None ''md5'' [1] 1 heap0) = ERR EINVAL
   \<and> fst (snd (crypt_hmac_init toy None ''md5'' [1] 1 heap0)) = None
   \<and> fst (crypt_cipher_init toy None ''md5'' ''cbc'' [1] 1 heap0) = ERR ENOTSUP
   \<and> fst (snd (crypt_cipher_init toy None ''md5'' ''cbc'' [1] 1 heap0)) = None
   \<and> fst (crypt_hash_init toy None ''sum2'' heap0) = OK
   \<and> (\<exists>c. fst (snd (crypt_hash_init toy None ''sum2'' heap0)) = Some (Ptr 1 c))
   \<and> (\<exists>c. fst (snd (crypt_hmac_init toy None ''sum2'' [1] 1 heap0)) = Some (Ptr 1 c))
   \<and> (\<exists>c. fst (snd (crypt_cipher_init toy None ''aes'' ''cbc'' [1] 16 heap0)) = Some (Ptr 1 c))"
  using
    init_assigns_handle_only_on_success
      [of toy "Some (Ptr 7 \<lparr>md = Ptr 8 [1], hash_id = 2, hash_len = 2\<rparr>)" "''md5''" heap0
          None "[1]" 1 None "''cbc''"]
    init_assigns_handle_only_on_success
      [of toy None "''sum2''" heap0 None "[1]" 1 None "''cbc''"]
    init_assigns_handle_only_on_success
      [of toy None "''aes''" heap0 None "[1]" 16 None "''cbc''"]
  by (simp add: run_defs)

subsection \<open>Finalize\<close>

lemma c_size_t_nat: "n < 2 ^ 64 \<Longrightarrow> c_size_t (int n) = n"
proof -
  assume "n < 2 ^ 64"
  then have "int n < 2 ^ 64" by simp
  then have "int n mod 2 ^ 64 = int n" by (intro mod_pos_pos_trivial) simp_all
  then show ?thesis by (simp add: c_size_t_def)
qed

lemma take_memzero: "take n (crypt_backend_memzero buf n) = replicate n 0"
  by (simp add: crypt_backend_memzero_def)

lemma crypt_hash_final_scratch:
  assumes "crypt_hash_final b ctx buffer len tmp0 = Some (rc, buffer', tmp', ctx')"
    and "len \<le> c_size_t (hash_len ctx)"
    and "fst (EVP_DigestFinal_ex b (deref (md ctx)) tmp0) = 1"
  shows "take EVP_MAX_MD_SIZE tmp' = replicate EVP_MAX_MD_SIZE 0"
  using assms
  by (auto simp: crypt_hash_final_def take_memzero split: prod.splits option.splits if_splits)

lemma crypt_hmac_final_scratch:
  assumes "crypt_hmac_final b ctx buffer len tmp0 = Some (rc, buffer', tmp', ctx')"
    and "len \<le> c_size_t (hmac_hash_len ctx)"
  shows "take EVP_MAX_MD_SIZE tmp' = replicate EVP_MAX_MD_SIZE 0"
  using assms
  by (auto simp: crypt_hmac_final_def take_memzero split: prod.splits option.splits if_splits)

lemma crypt_hash_final_too_long:
  "c_size_t (hash_len ctx) < len
   \<Longrightarrow> crypt_hash_final b ctx buffer len tmp0 = Some (ERR EINVAL, buffer, tmp0, ctx)"
  by (simp add: crypt_hash_final_def)

lemma crypt_hmac_final_too_long:
  "c_size_t (hmac_hash_len ctx) < len
   \<Longrightarrow> crypt_hmac_final b ctx buffer len tmp0 = Some (ERR EINVAL, buffer, tmp0, ctx)"
  by (simp add: crypt_hmac_final_def)

text \<open>The definitions that a run of a finalize function on the small library unfolds.\<close>

lemmas final_run_defs =
  crypt_hash_final_def crypt_hmac_final_def crypt_hash_restart_def crypt_hmac_restart_def
  toy_def toy_digest_def toy_mac_def c_size_t_def memcpy_def crypt_backend_memzero_def
  EVP_MAX_MD_SIZE_def

text \<open>
  C5. The claim asks for an all-zero scratch array on every exit path of the two
  finalize functions, error paths included. Both functions compare the requested
  length with \<^verbatim>\<open>hash_len\<close> before they touch the array and return \<^verbatim>\<open>-EINVAL\<close> at once
  when it is larger: on that return the array is as the function found it, which is
  what the stack held and not zero. Here the digest has two bytes, three are asked
  for, and the array holds 64 bytes \<open>0xAA\<close> before and after each call.
\<close>

theorem final_scratch_counterexample:
  "crypt_hash_final toy \<lparr>md = Ptr 2 [5], hash_id = 2, hash_len = 2\<rparr> [0, 0, 0] 3 (replicate 64 170)
     = Some (ERR EINVAL, [0, 0, 0], replicate 64 170, \<lparr>md = Ptr 2 [5], hash_id = 2, hash_len = 2\<rparr>)
   \<and> crypt_hmac_final toy \<lparr>hmac_md = Ptr 2 (2, [7], [5]), hmac_hash_id = 2, hmac_hash_len = 2\<rparr>
         [0, 0, 0] 3 (replicate 64 170)
     = Some (ERR EINVAL, [0, 0, 0], replicate 64 170,
             \<lparr>hmac_md = Ptr 2 (2, [7], [5]), hmac_hash_id = 2, hmac_hash_len = 2\<rparr>)
   \<and> replicate 64 (170 :: byte) \<noteq> replicate 64 0"
  by (simp add: crypt_hash_final_def crypt_hmac_final_def c_size_t_def)

text \<open>
  C5, as amended. When the requested length passes the check, the 64 bytes of the
  scratch array are zero when \<^verbatim>\<open>crypt_hmac_final\<close> returns, whatever it returns, and
  when \<^verbatim>\<open>crypt_hash_final\<close> returns after a successful \<^verbatim>\<open>EVP_DigestFinal_ex\<close>, whatever
  it returns (the error returns for a short digest and for a failed restart included).
  When the requested length does not pass the check, both functions return \<^verbatim>\<open>-EINVAL\<close>
  with the array, the caller's buffer and the context untouched. The return of
  \<^verbatim>\<open>crypt_hash_final\<close> after a failed \<^verbatim>\<open>EVP_DigestFinal_ex\<close> is not part of the statement.
\<close>

theorem final_zeroes_scratch_after_copy:
  "(crypt_hash_final b hctx buffer len tmp0 = Some (rc, buffer', tmp', hctx')
      \<and> len \<le> c_size_t (hash_len hctx)
      \<and> fst (EVP_DigestFinal_ex b (deref (md hctx)) tmp0) = 1
      \<longrightarrow> take EVP_MAX_MD_SIZE tmp' = replicate EVP_MAX_MD_SIZE 0)
   \<and> (crypt_hmac_final b mctx buffer len tmp0 = Some (rc2, buffer2, tmp2, mctx')
      \<and> len \<le> c_size_t (hmac_hash_len mctx)
      \<longrightarrow> take EVP_MAX_MD_SIZE tmp2 = replicate EVP_MAX_MD_SIZE 0)
   \<and> (c_size_t (hash_len hctx) < len
      \<longrightarrow> crypt_hash_final b hctx buffer len tmp0 = Some (ERR EINVAL, buffer, tmp0, hctx))
   \<and> (c_size_t (hmac_hash_len mctx) < len
      \<longrightarrow> crypt_hmac_final b mctx buffer len tmp0 = Some (ERR EINVAL, buffer, tmp0, mctx))"
  using crypt_hash_final_scratch [of b hctx buffer len tmp0 rc buffer' tmp' hctx']
    crypt_hmac_final_scratch [of b mctx buffer len tmp0 rc2 buffer2 tmp2 mctx']
    crypt_hash_final_too_long [of hctx len b buffer tmp0]
    crypt_hmac_final_too_long [of mctx len b buffer tmp0]
  by blast

theorem final_zeroes_scratch_after_copy_witness:
  "crypt_hash_final toy \<lparr>md = Ptr 2 [5], hash_id = 2, hash_len = 2\<rparr> [0, 0, 0] 2 (replicate 64 170)
     = Some (OK, [6, 1, 0], replicate 64 0, \<lparr>md = Ptr 2 [], hash_id = 2, hash_len = 2\<rparr>)
   \<and> crypt_hash_final toy \<lparr>md = Ptr 2 [5], hash_id = 2, hash_len = 3\<rparr> [0, 0, 0] 3 (replicate 64 170)
     = Some (ERR EINVAL, [6, 1, 170], replicate 64 0, \<lparr>md = Ptr 2 [5], hash_id = 2, hash_len = 3\<rparr>)
   \<and> crypt_hmac_final toy \<lparr>hmac_md = Ptr 2 (2, [7], [5]), hmac_hash_id = 2, hmac_hash_len = 3\<rparr>
         [0, 0, 0] 3 (replicate 64 170)
     = Some (ERR EINVAL, [13, 2, 170], replicate 64 0,
             \<lparr>hmac_md = Ptr 2 (2, [7], [5]), hmac_hash_id = 2, hmac_hash_len = 3\<rparr>)
   \<and> take EVP_MAX_MD_SIZE (replicate 64 (0 :: byte)) = replicate EVP_MAX_MD_SIZE 0
   \<and> crypt_hash_final toy \<lparr>md = Ptr 2 [5], hash_id = 2, hash_len = 2\<rparr> [0, 0, 0] 3 (replicate 64 170)
     = Some (ERR EINVAL, [0, 0, 0], replicate 64 170, \<lparr>md = Ptr 2 [5], hash_id = 2, hash_len = 2\<rparr>)
   \<and> crypt_hmac_final toy \<lparr>hmac_md = Ptr 2 (2, [7], [5]), hmac_hash_id = 2, hmac_hash_len = 2\<rparr>
         [0, 0, 0] 3 (replicate 64 170)
     = Some (ERR EINVAL, [0, 0, 0], replicate 64 170,
             \<lparr>hmac_md = Ptr 2 (2, [7], [5]), hmac_hash_id = 2, hmac_hash_len = 2\<rparr>)"
  using
    final_zeroes_scratch_after_copy
      [of toy "\<lparr>md = Ptr 2 [5], hash_id = 2, hash_len = 2\<rparr>" "[0, 0, 0]" 2 "replicate 64 170"
          OK "[6, 1, 0]" "replicate 64 0" "\<lparr>md = Ptr 2 [], hash_id = 2, hash_len = 2\<rparr>"
          "\<lparr>hmac_md = Ptr 2 (2, [7], [5]), hmac_hash_id = 2, hmac_hash_len = 3\<rparr>"]
    final_zeroes_scratch_after_copy
      [of toy "\<lparr>md = Ptr 2 [5], hash_id = 2, hash_len = 3\<rparr>" "[0, 0, 0]" 3 "replicate 64 170"
          "ERR EINVAL" "[6, 1, 170]" "replicate 64 0" "\<lparr>md = Ptr 2 [5], hash_id = 2, hash_len = 3\<rparr>"
          "\<lparr>hmac_md = Ptr 2 (2, [7], [5]), hmac_hash_id = 2, hmac_hash_len = 3\<rparr>"
          "ERR EINVAL" "[13, 2, 170]" "replicate 64 0"
          "\<lparr>hmac_md = Ptr 2 (2, [7], [5]), hmac_hash_id = 2, hmac_hash_len = 3\<rparr>"]
    final_zeroes_scratch_after_copy
      [of toy "\<lparr>md = Ptr 2 [5], hash_id = 2, hash_len = 2\<rparr>" "[0, 0, 0]" 3 "replicate 64 170"
          OK "[]" "[]" "\<lparr>md = Ptr 2 [5], hash_id = 2, hash_len = 2\<rparr>"
          "\<lparr>hmac_md = Ptr 2 (2, [7], [5]), hmac_hash_id = 2, hmac_hash_len = 2\<rparr>"]
  by (simp add: final_run_defs)

text \<open>
  What the statement above leaves out: a run of \<^verbatim>\<open>crypt_hash_final\<close> in which
  \<^verbatim>\<open>EVP_DigestFinal_ex\<close> writes the digest to the array and then reports a failure. The
  function returns before the array is cleared.
\<close>

lemma crypt_hash_final_backend_failure:
  "crypt_hash_final toy_digest_final_fails \<lparr>md = Ptr 2 [5], hash_id = 2, hash_len = 2\<rparr>
       [0, 0] 2 (replicate 64 170)
     = Some (ERR EINVAL, [0, 0], [6, 1] @ replicate 62 170,
             \<lparr>md = Ptr 2 [5], hash_id = 2, hash_len = 2\<rparr>)"
  by (simp add: crypt_hash_final_def toy_digest_final_fails_def toy_def toy_digest_def c_size_t_def)

text \<open>
  C7. For a context whose \<^verbatim>\<open>hash_len\<close> is the natural digest size \<open>n\<close>, finalize with a
  length above \<open>n\<close> (\<open>n + 1\<close> included) returns \<^verbatim>\<open>-EINVAL\<close>, the value for LengthExceeded,
  and changes nothing. With a length of at most \<open>n\<close>, a caller's buffer that holds that
  many bytes, and library calls that do their work (the finalisation leaves the \<open>n\<close>
  digest bytes in the scratch array and reports \<open>n\<close>; for the hash, it and the restart
  return 1), finalize returns 0 and the caller's buffer holds the first \<open>len\<close> of the
  \<open>n\<close> digest bytes, followed by what it held before from position \<open>len\<close> on.
\<close>

theorem final_length_check:
  "(hash_len hctx = int n \<and> n < 2 ^ 31 \<and> n < len
      \<longrightarrow> crypt_hash_final b hctx buffer len stack = Some (ERR EINVAL, buffer, stack, hctx))
   \<and> (hash_len hctx = int n \<and> n < 2 ^ 31 \<and> len \<le> n \<and> len \<le> length buffer
        \<and> EVP_DigestFinal_ex b (deref (md hctx)) stack = (1, tmp, n, mnew) \<and> n \<le> length tmp
        \<and> fst (EVP_DigestInit_ex b mnew (hash_id hctx)) = 1
      \<longrightarrow> (\<exists>tmp' hctx'. crypt_hash_final b hctx buffer len stack
             = Some (OK, take len (take n tmp) @ drop len buffer, tmp', hctx')))
   \<and> (hmac_hash_len mctx = int n \<and> n < 2 ^ 31 \<and> n < len
      \<longrightarrow> crypt_hmac_final b mctx buffer len stack = Some (ERR EINVAL, buffer, stack, mctx))
   \<and> (hmac_hash_len mctx = int n \<and> n < 2 ^ 31 \<and> len \<le> n \<and> len \<le> length buffer
        \<and> HMAC_Final b (deref (hmac_md mctx)) stack = (r, mtmp, n, hnew) \<and> n \<le> length mtmp
      \<longrightarrow> (\<exists>tmp' mctx'. crypt_hmac_final b mctx buffer len stack
             = Some (OK, take len (take n mtmp) @ drop len buffer, tmp', mctx')))"
proof (intro conjI impI)
  assume "hash_len hctx = int n \<and> n < 2 ^ 31 \<and> n < len"
  then show "crypt_hash_final b hctx buffer len stack = Some (ERR EINVAL, buffer, stack, hctx)"
    using c_size_t_nat [of n] by (simp add: crypt_hash_final_def)
next
  assume "hmac_hash_len mctx = int n \<and> n < 2 ^ 31 \<and> n < len"
  then show "crypt_hmac_final b mctx buffer len stack = Some (ERR EINVAL, buffer, stack, mctx)"
    using c_size_t_nat [of n] by (simp add: crypt_hmac_final_def)
next
  assume a: "hash_len hctx = int n \<and> n < 2 ^ 31 \<and> len \<le> n \<and> len \<le> length buffer
        \<and> EVP_DigestFinal_ex b (deref (md hctx)) stack = (1, tmp, n, mnew) \<and> n \<le> length tmp
        \<and> fst (EVP_DigestInit_ex b mnew (hash_id hctx)) = 1"
  then have "c_size_t (hash_len hctx) = n" using c_size_t_nat [of n] by simp
  with a show "\<exists>tmp' hctx'. crypt_hash_final b hctx buffer len stack
             = Some (OK, take len (take n tmp) @ drop len buffer, tmp', hctx')"
    by (auto simp: crypt_hash_final_def crypt_hash_restart_def memcpy_def min_def
             split: prod.splits)
next
  assume a: "hmac_hash_len mctx = int n \<and> n < 2 ^ 31 \<and> len \<le> n \<and> len \<le> length buffer
        \<and> HMAC_Final b (deref (hmac_md mctx)) stack = (r, mtmp, n, hnew) \<and> n \<le> length mtmp"
  then have "c_size_t (hmac_hash_len mctx) = n" using c_size_t_nat [of n] by simp
  with a show "\<exists>tmp' mctx'. crypt_hmac_final b mctx buffer len stack
             = Some (OK, take len (take n mtmp) @ drop len buffer, tmp', mctx')"
    by (auto simp: crypt_hmac_final_def memcpy_def min_def split: prod.splits)
qed

theorem final_length_check_witness:
  "crypt_hash_final toy \<lparr>md = Ptr 2 [5], hash_id = 2, hash_len = 2\<rparr> [9, 9, 9] 3 (replicate 64 170)
     = Some (ERR EINVAL, [9, 9, 9], replicate 64 170, \<lparr>md = Ptr 2 [5], hash_id = 2, hash_len = 2\<rparr>)
   \<and> (\<exists>tmp' hctx'.
        crypt_hash_final toy \<lparr>md = Ptr 2 [5], hash_id = 2, hash_len = 2\<rparr> [9, 9, 9] 1 (replicate 64 170)
          = Some (OK, [6, 9, 9], tmp', hctx'))
   \<and> crypt_hmac_final toy \<lparr>hmac_md = Ptr 2 (2, [7], [5]), hmac_hash_id = 2, hmac_hash_len = 2\<rparr>
         [9, 9, 9] 3 (replicate 64 170)
     = Some (ERR EINVAL, [9, 9, 9], replicate 64 170,
             \<lparr>hmac_md = Ptr 2 (2, [7], [5]), hmac_hash_id = 2, hmac_hash_len = 2\<rparr>)
   \<and> (\<exists>tmp' mctx'.
        crypt_hmac_final toy \<lparr>hmac_md = Ptr 2 (2, [7], [5]), hmac_hash_id = 2, hmac_hash_len = 2\<rparr>
            [9, 9, 9] 2 (replicate 64 170)
          = Some (OK, [13, 2, 9], tmp', mctx'))"
  using
    final_length_check
      [where b = toy and n = 2 and len = 3 and buffer = "[9, 9, 9]" and stack = "replicate 64 170"
         and hctx = "\<lparr>md = Ptr 2 [5], hash_id = 2, hash_len = 2\<rparr>"
         and tmp = "[6, 1] @ replicate 62 170" and mnew = "[5]"
         and mctx = "\<lparr>hmac_md = Ptr 2 (2, [7], [5]), hmac_hash_id = 2, hmac_hash_len = 2\<rparr>"
         and r = 1 and mtmp = "[13, 2] @ replicate 62 170" and hnew = "(2, [7], [5])"]
    final_length_check
      [where b = toy and n = 2 and len = 1 and buffer = "[9, 9, 9]" and stack = "replicate 64 170"
         and hctx = "\<lparr>md = Ptr 2 [5], hash_id = 2, hash_len = 2\<rparr>"
         and tmp = "[6, 1] @ replicate 62 170" and mnew = "[5]"
         and mctx = "\<lparr>hmac_md = Ptr 2 (2, [7], [5]), hmac_hash_id = 2, hmac_hash_len = 2\<rparr>"
         and r = 1 and mtmp = "[13, 2] @ replicate 62 170" and hnew = "(2, [7], [5])"]
    final_length_check
      [where b = toy and n = 2 and len = 2 and buffer = "[9, 9, 9]" and stack = "replicate 64 170"
         and hctx = "\<lparr>md = Ptr 2 [5], hash_id = 2, hash_len = 2\<rparr>"
         and tmp = "[6, 1] @ replicate 62 170" and mnew = "[5]"
         and mctx = "\<lparr>hmac_md = Ptr 2 (2, [7], [5]), hmac_hash_id = 2, hmac_hash_len = 2\<rparr>"
         and r = 1 and mtmp = "[13, 2] @ replicate 62 170" and hnew = "(2, [7], [5])"]
  by (simp add: toy_def toy_digest_def toy_mac_def)

subsection \<open>Key derivation\<close>

lemma c_int_in_range: "x < 2 ^ 31 \<Longrightarrow> c_int x = int x"
proof -
  assume "x < 2 ^ 31"
  then have "int x < 2 ^ 31" by simp
  then have "(int x + 2 ^ 31) mod 2 ^ 32 = int x + 2 ^ 31"
    by (intro mod_pos_pos_trivial) simp_all
  then show ?thesis by (simp add: c_int_def)
qed

lemma c_int_wraps: "c_int (x + 2 ^ 32) = c_int x"
proof -
  have "(int x + 2 ^ 31 + 2 ^ 32) mod 2 ^ 32 = (int x + 2 ^ 31) mod (2 ^ 32 :: int)"
    by (rule mod_add_self2)
  moreover have "int (x + 2 ^ 32) + 2 ^ 31 = int x + 2 ^ 31 + (2 ^ 32 :: int)" by simp
  ultimately show ?thesis unfolding c_int_def by (simp only:)
qed

lemma argon2_prefix_not_pbkdf2: "take 6 k = ''argon2'' \<Longrightarrow> k \<noteq> ''pbkdf2''"
  by auto

text \<open>
  The dispatch of \<^verbatim>\<open>crypt_pbkdf\<close>, for every library. The family \<open>pbkdf2\<close> resolves the
  hash name, returns \<^verbatim>\<open>-EINVAL\<close> when that fails, and otherwise returns what
  \<^verbatim>\<open>PKCS5_PBKDF2_HMAC\<close> makes of the password, the salt, and the three lengths and the
  iteration count after their \<^verbatim>\<open>(int)\<close> casts; \<open>memory\<close> and \<open>parallel\<close> do not occur. A
  family that starts with \<open>argon2\<close> returns what \<^verbatim>\<open>argon2\<close> returns for the family name
  and all cost parameters as given; \<open>hash\<close> does not occur. Every other family, and a
  \<^verbatim>\<open>NULL\<close> one, returns \<^verbatim>\<open>-EINVAL\<close>. The cast keeps an iteration count below \<open>2 ^ 31\<close>.
\<close>

lemma crypt_pbkdf_dispatch:
  "(kdf = Some ''pbkdf2'' \<and> EVP_get_digestbyname b hash = None
      \<longrightarrow> crypt_pbkdf b kdf hash password password_length salt salt_length key key_length
            iterations memory parallel
          = (ERR EINVAL, key))
   \<and> (kdf = Some ''pbkdf2'' \<and> EVP_get_digestbyname b hash = Some hid
      \<longrightarrow> crypt_pbkdf b kdf hash password password_length salt salt_length key key_length
            iterations memory parallel
          = (if fst (PKCS5_PBKDF2_HMAC b password (c_int password_length) salt (c_int salt_length)
                       (c_int iterations) hid (c_int key_length) key) = 0
             then ERR EINVAL else OK,
             snd (PKCS5_PBKDF2_HMAC b password (c_int password_length) salt (c_int salt_length)
                    (c_int iterations) hid (c_int key_length) key)))
   \<and> (kdf = Some k \<and> take 6 k = ''argon2''
      \<longrightarrow> crypt_pbkdf b kdf hash password password_length salt salt_length key key_length
            iterations memory parallel
          = argon2 b k password password_length salt salt_length key key_length
              iterations memory parallel)
   \<and> (kdf = Some k \<and> k \<noteq> ''pbkdf2'' \<and> take 6 k \<noteq> ''argon2''
      \<longrightarrow> crypt_pbkdf b kdf hash password password_length salt salt_length key key_length
            iterations memory parallel
          = (ERR EINVAL, key))
   \<and> (kdf = None
      \<longrightarrow> crypt_pbkdf b kdf hash password password_length salt salt_length key key_length
            iterations memory parallel
          = (ERR EINVAL, key))
   \<and> (iterations < 2 ^ 31 \<longrightarrow> c_int iterations = int iterations)"
proof (intro conjI impI)
  assume "kdf = Some ''pbkdf2'' \<and> EVP_get_digestbyname b hash = None"
  then show "crypt_pbkdf b kdf hash password password_length salt salt_length key key_length
            iterations memory parallel = (ERR EINVAL, key)"
    by (simp add: crypt_pbkdf_def strcmp_eq_0_iff)
next
  assume "kdf = Some ''pbkdf2'' \<and> EVP_get_digestbyname b hash = Some hid"
  then show "crypt_pbkdf b kdf hash password password_length salt salt_length key key_length
            iterations memory parallel
          = (if fst (PKCS5_PBKDF2_HMAC b password (c_int password_length) salt (c_int salt_length)
                       (c_int iterations) hid (c_int key_length) key) = 0
             then ERR EINVAL else OK,
             snd (PKCS5_PBKDF2_HMAC b password (c_int password_length) salt (c_int salt_length)
                    (c_int iterations) hid (c_int key_length) key))"
    by (simp add: crypt_pbkdf_def strcmp_eq_0_iff split: prod.splits)
next
  assume a: "kdf = Some k \<and> take 6 k = ''argon2''"
  then have "k \<noteq> ''pbkdf2''" by (intro argon2_prefix_not_pbkdf2) simp
  with a show "crypt_pbkdf b kdf hash password password_length salt salt_length key key_length
            iterations memory parallel
          = argon2 b k password password_length salt salt_length key key_length
              iterations memory parallel"
    by (simp add: crypt_pbkdf_def strcmp_eq_0_iff strncmp_eq_0_iff)
next
  assume "kdf = Some k \<and> k \<noteq> ''pbkdf2'' \<and> take 6 k \<noteq> ''argon2''"
  then show "crypt_pbkdf b kdf hash password password_length salt salt_length key key_length
            iterations memory parallel = (ERR EINVAL, key)"
    by (simp add: crypt_pbkdf_def strcmp_eq_0_iff strncmp_eq_0_iff)
next
  assume "kdf = None"
  then show "crypt_pbkdf b kdf hash password password_length salt salt_length key key_length
            iterations memory parallel = (ERR EINVAL, key)"
    by (simp add: crypt_pbkdf_def)
next
  assume "iterations < 2 ^ 31"
  then show "c_int iterations = int iterations" by (rule c_int_in_range)
qed

lemma crypt_pbkdf_dispatch_run:
  "crypt_pbkdf toy (Some ''pbkdf2'') ''md5'' [1] 1 [2] 1 [0, 0, 0] 2 1000 7 9 = (ERR EINVAL, [0, 0, 0])
   \<and> crypt_pbkdf toy (Some ''pbkdf2'') ''sum2'' [1] 1 [2] 1 [0, 0, 0] 2 1000 7 9 = (OK, [235, 235, 0])
   \<and> crypt_pbkdf toy (Some ''argon2id'') ''md5'' [1] 1 [2] 1 [0, 0, 0] 2 1000 7 9 = (OK, [251, 251, 0])
   \<and> crypt_pbkdf toy (Some ''scrypt'') ''sum2'' [1] 1 [2] 1 [0, 0, 0] 2 1000 7 9 = (ERR EINVAL, [0, 0, 0])
   \<and> crypt_pbkdf toy None ''sum2'' [1] 1 [2] 1 [0, 0, 0] 2 1000 7 9 = (ERR EINVAL, [0, 0, 0])
   \<and> c_int 1000 = 1000"
  using
    crypt_pbkdf_dispatch [where b = toy and kdf = "Some ''pbkdf2''" and hash = "''md5''"
      and password = "[1]" and password_length = 1 and salt = "[2]" and salt_length = 1
      and key = "[0, 0, 0]" and key_length = 2 and iterations = 1000 and memory = 7
      and parallel = 9 and hid = 2 and k = "''pbkdf2''"]
    crypt_pbkdf_dispatch [where b = toy and kdf = "Some ''pbkdf2''" and hash = "''sum2''"
      and password = "[1]" and password_length = 1 and salt = "[2]" and salt_length = 1
      and key = "[0, 0, 0]" and key_length = 2 and iterations = 1000 and memory = 7
      and parallel = 9 and hid = 2 and k = "''pbkdf2''"]
    crypt_pbkdf_dispatch [where b = toy and kdf = "Some ''argon2id''" and hash = "''md5''"
      and password = "[1]" and password_length = 1 and salt = "[2]" and salt_length = 1
      and key = "[0, 0, 0]" and key_length = 2 and iterations = 1000 and memory = 7
      and parallel = 9 and hid = 2 and k = "''argon2id''"]
    crypt_pbkdf_dispatch [where b = toy and kdf = "Some ''scrypt''" and hash = "''sum2''"
      and password = "[1]" and password_length = 1 and salt = "[2]" and salt_length = 1
      and key = "[0, 0, 0]" and key_length = 2 and iterations = 1000 and memory = 7
      and parallel = 9 and hid = 2 and k = "''scrypt''"]
    crypt_pbkdf_dispatch [where b = toy and kdf = None and hash = "''sum2''"
      and password = "[1]" and password_length = 1 and salt = "[2]" and salt_length = 1
      and key = "[0, 0, 0]" and key_length = 2 and iterations = 1000 and memory = 7
      and parallel = 9 and hid = 2 and k = "''scrypt''"]
  by (simp add: toy_def c_int_def)

text \<open>
  C6. The claim says that the family \<open>pbkdf2\<close> runs the iteration-based derivation with
  the given iteration count. \<^verbatim>\<open>iterations\<close> is a \<^verbatim>\<open>uint32_t\<close> and the call casts it to
  \<^verbatim>\<open>int\<close> without a range check, so from \<open>2 ^ 31\<close> on the library is handed a negative
  count. With the count 2147483648 the small library derives a key when it is called
  with that count, but \<^verbatim>\<open>crypt_pbkdf\<close> calls it with -2147483648, which it rejects, and
  returns \<^verbatim>\<open>-EINVAL\<close>.
\<close>

theorem crypt_pbkdf_large_iteration_count:
  "PKCS5_PBKDF2_HMAC toy [1] 1 [2] 1 2147483648 2 2 [0, 0, 0] = (1, [3, 3, 0])
   \<and> crypt_pbkdf toy (Some ''pbkdf2'') ''sum2'' [1] 1 [2] 1 [0, 0, 0] 2 2147483648 0 0
       = (ERR EINVAL, [0, 0, 0])
   \<and> c_int 2147483648 = - 2147483648"
  by (simp add: crypt_pbkdf_def toy_def c_int_def)

subsection \<open>Teardown of a cipher session\<close>

lemma malloc_SomeD:
  "malloc hp = (Some a, hp') \<Longrightarrow>
     a = fresh_addr (live hp) \<and> live hp' = a # live hp \<and> faulted hp' = faulted hp"
  by (auto simp: malloc_def split: list.splits bool.splits)

lemma malloc_NoneD:
  "malloc hp = (None, hp') \<Longrightarrow> live hp' = live hp \<and> faulted hp' = faulted hp"
  by (auto simp: malloc_def split: list.splits bool.splits)

lemma free_live:
  "a \<in> set (live hp) \<Longrightarrow>
     live (free (Some a) hp) = remove1 a (live hp) \<and> faulted (free (Some a) hp) = faulted hp"
  by (simp add: free_def)

lemma free_NULL: "free None hp = hp"
  by (simp add: free_def)

lemma fresh_addr_neq_head: "fresh_addr (a # as) \<noteq> a"
  using fresh_addr_notin [of "a # as"] by auto

lemma EVP_CIPHER_CTX_new_SomeD:
  "EVP_CIPHER_CTX_new b hp = (Some p, hp') \<Longrightarrow>
     addr p = fresh_addr (live hp) \<and> live hp' = addr p # live hp \<and> faulted hp' = faulted hp"
  by (auto simp: EVP_CIPHER_CTX_new_def split: prod.splits option.splits dest: malloc_SomeD)

lemma EVP_CIPHER_CTX_new_NoneD:
  "EVP_CIPHER_CTX_new b hp = (None, hp') \<Longrightarrow> live hp' = live hp \<and> faulted hp' = faulted hp"
  by (auto simp: EVP_CIPHER_CTX_new_def split: prod.splits option.splits dest: malloc_NoneD)

text \<open>Destroying what init has built so far gives back the allocator state of the start.\<close>

lemma destroy_after_allocs:
  assumes "malloc hp = (Some h, hpa)"
    and "EVP_CIPHER_CTX_new b hpa = (enc, hpb)"
    and "EVP_CIPHER_CTX_new b hpb = (dec, hpc)"
    and "map_option addr enc' = map_option addr enc"
    and "map_option addr dec' = map_option addr dec"
  shows "live (crypt_cipher_destroy (Some (Ptr h \<lparr>hd_enc = enc', hd_dec = dec'\<rparr>)) hpc) = live hp
       \<and> faulted (crypt_cipher_destroy (Some (Ptr h \<lparr>hd_enc = enc', hd_dec = dec'\<rparr>)) hpc)
           = faulted hp"
proof -
  from assms(1) have h: "h = fresh_addr (live hp)" "live hpa = h # live hp" "faulted hpa = faulted hp"
    using malloc_SomeD by blast+
  show ?thesis
  proof (cases enc)
    case None
    note encN = this
    with assms(2) have b: "live hpb = live hpa" "faulted hpb = faulted hpa"
      using EVP_CIPHER_CTX_new_NoneD by blast+
    show ?thesis
    proof (cases dec)
      case None
      with assms(3) have c: "live hpc = live hpb" "faulted hpc = faulted hpb"
        using EVP_CIPHER_CTX_new_NoneD by blast+
      from None encN assms(4,5) h b c show ?thesis
        by (simp add: crypt_cipher_destroy_def EVP_CIPHER_CTX_free_def free_def)
    next
      case (Some d)
      with assms(3) have c: "addr d = fresh_addr (live hpb)" "live hpc = addr d # live hpb"
          "faulted hpc = faulted hpb"
        using EVP_CIPHER_CTX_new_SomeD by blast+
      from Some encN assms(4,5) h b c fresh_addr_neq_head [of h "live hp"] show ?thesis
        by (auto simp add: crypt_cipher_destroy_def EVP_CIPHER_CTX_free_def free_def)
    qed
  next
    case (Some e)
    note encS = this
    with assms(2) have b: "addr e = fresh_addr (live hpa)" "live hpb = addr e # live hpa"
        "faulted hpb = faulted hpa"
      using EVP_CIPHER_CTX_new_SomeD by blast+
    show ?thesis
    proof (cases dec)
      case None
      with assms(3) have c: "live hpc = live hpb" "faulted hpc = faulted hpb"
        using EVP_CIPHER_CTX_new_NoneD by blast+
      from None encS assms(4,5) h b c fresh_addr_neq_head [of h "live hp"] show ?thesis
        by (auto simp add: crypt_cipher_destroy_def EVP_CIPHER_CTX_free_def free_def)
    next
      case (Some d)
      with assms(3) have c: "addr d = fresh_addr (live hpb)" "live hpc = addr d # live hpb"
          "faulted hpc = faulted hpb"
        using EVP_CIPHER_CTX_new_SomeD by blast+
      have "addr d \<notin> set (addr e # h # live hp)"
        using fresh_addr_notin [of "addr e # h # live hp"] b c h by simp
      moreover have "addr e \<noteq> h" using fresh_addr_neq_head [of h "live hp"] b h by simp
      ultimately show ?thesis using Some encS assms(4,5) h b c
        by (auto simp add: crypt_cipher_destroy_def EVP_CIPHER_CTX_free_def free_def)
    qed
  qed
qed

lemma crypt_cipher_init_failure_heap:
  assumes "crypt_cipher_init b ctx name mode key key_length hp = (rc, ctx', hp')"
    and "rc \<noteq> OK"
  shows "live hp' = live hp \<and> faulted hp' = faulted hp"
proof (cases "crypt_cipher_init_type name mode key_length")
  case (Inl e)
  with assms show ?thesis by (simp add: crypt_cipher_init_def)
next
  case (Inr type)
  obtain h hpa where m: "malloc hp = (h, hpa)" by (cases "malloc hp")
  show ?thesis
  proof (cases h)
    case None
    with assms Inr m malloc_NoneD [of hp hpa] show ?thesis
      by (simp add: crypt_cipher_init_def)
  next
    case (Some a)
    obtain enc hpb where e: "EVP_CIPHER_CTX_new b hpa = (enc, hpb)"
      by (cases "EVP_CIPHER_CTX_new b hpa")
    obtain dec hpc where d: "EVP_CIPHER_CTX_new b hpb = (dec, hpc)"
      by (cases "EVP_CIPHER_CTX_new b hpb")
    from m Some have m': "malloc hp = (Some a, hpa)" by simp
    have rel: "\<And>enc' dec'. map_option addr enc' = map_option addr enc
        \<Longrightarrow> map_option addr dec' = map_option addr dec
        \<Longrightarrow> live (crypt_cipher_destroy (Some (Ptr a \<lparr>hd_enc = enc', hd_dec = dec'\<rparr>)) hpc) = live hp
          \<and> faulted (crypt_cipher_destroy (Some (Ptr a \<lparr>hd_enc = enc', hd_dec = dec'\<rparr>)) hpc)
              = faulted hp"
      using destroy_after_allocs [OF m' e d] by blast
    from assms Inr m' e d show ?thesis
      by (auto simp add: crypt_cipher_init_def rel split: option.splits prod.splits if_splits)
  qed
qed

lemma free_distinct:
  assumes "distinct (live hp)" and "a \<in> set (live hp)"
  shows "set (live (free (Some a) hp)) = set (live hp) - {a}
       \<and> distinct (live (free (Some a) hp))
       \<and> faulted (free (Some a) hp) = faulted hp"
  using assms by (simp add: free_def)

lemma crypt_cipher_destroy_partial:
  assumes "distinct (live hp)"
    and "distinct (session_addrs p)"
    and "set (session_addrs p) \<subseteq> set (live hp)"
  shows "set (live (crypt_cipher_destroy (Some p) hp)) = set (live hp) - set (session_addrs p)
       \<and> faulted (crypt_cipher_destroy (Some p) hp) = faulted hp"
proof (cases "hd_enc (deref p)")
  case None
  note encN = this
  show ?thesis
  proof (cases "hd_dec (deref p)")
    case None
    with encN assms show ?thesis
      by (auto simp: crypt_cipher_destroy_def EVP_CIPHER_CTX_free_def session_addrs_def free_def)
  next
    case (Some d)
    with encN assms free_distinct [of hp "addr d"] show ?thesis
      by (auto simp: crypt_cipher_destroy_def EVP_CIPHER_CTX_free_def session_addrs_def
          free_NULL free_distinct)
  qed
next
  case (Some e)
  note encS = this
  from assms encS have e: "addr e \<in> set (live hp)" by (auto simp: session_addrs_def)
  note fe = free_distinct [OF assms(1) e]
  show ?thesis
  proof (cases "hd_dec (deref p)")
    case None
    with encS assms fe show ?thesis
      by (auto simp: crypt_cipher_destroy_def EVP_CIPHER_CTX_free_def session_addrs_def
          free_NULL free_distinct)
  next
    case (Some d)
    from assms encS Some have d: "addr d \<in> set (live (free (Some (addr e)) hp))"
      using fe by (auto simp: session_addrs_def)
    note fd = free_distinct [OF conjunct1 [OF conjunct2 [OF fe]] d]
    from assms encS Some have "addr p \<in> set (live (free (Some (addr d)) (free (Some (addr e)) hp)))"
      using fe fd by (auto simp: session_addrs_def)
    with fd have fp: "set (live (free (Some (addr p)) (free (Some (addr d)) (free (Some (addr e)) hp))))
          = set (live (free (Some (addr d)) (free (Some (addr e)) hp))) - {addr p}
        \<and> faulted (free (Some (addr p)) (free (Some (addr d)) (free (Some (addr e)) hp)))
          = faulted (free (Some (addr d)) (free (Some (addr e)) hp))"
      using free_distinct by blast
    from encS Some fe fd fp show ?thesis
      by (auto simp: crypt_cipher_destroy_def EVP_CIPHER_CTX_free_def session_addrs_def)
  qed
qed

text \<open>
  C8. Whatever the library does and whichever allocations fail, a
  \<^verbatim>\<open>crypt_cipher_init\<close> that does not return 0 leaves the allocator as it found it: the
  same live addresses and no invalid \<^verbatim>\<open>free\<close>, so nothing is left for the caller to
  release. \<^verbatim>\<open>crypt_cipher_destroy\<close> on a session whose contexts are each allocated
  or \<^verbatim>\<open>NULL\<close> releases exactly the addresses the session owns, without an invalid
  \<^verbatim>\<open>free\<close>; on a \<^verbatim>\<open>NULL\<close> session it does nothing. The library's
  \<^verbatim>\<open>EVP_CIPHER_CTX_free\<close> is called on both context pointers, and accepts \<^verbatim>\<open>NULL\<close>.
\<close>

theorem cipher_teardown_on_partial_failure:
  "(fst (crypt_cipher_init b ctx name mode key key_length hp) \<noteq> OK
      \<longrightarrow> live (snd (snd (crypt_cipher_init b ctx name mode key key_length hp))) = live hp
        \<and> faulted (snd (snd (crypt_cipher_init b ctx name mode key key_length hp))) = faulted hp)
   \<and> (distinct (live hp) \<and> distinct (session_addrs p) \<and> set (session_addrs p) \<subseteq> set (live hp)
      \<longrightarrow> set (live (crypt_cipher_destroy (Some p) hp)) = set (live hp) - set (session_addrs p)
        \<and> faulted (crypt_cipher_destroy (Some p) hp) = faulted hp)
   \<and> crypt_cipher_destroy None hp = hp"
proof (intro conjI impI)
  assume "fst (crypt_cipher_init b ctx name mode key key_length hp) \<noteq> OK"
  then have "live (snd (snd (crypt_cipher_init b ctx name mode key key_length hp))) = live hp
        \<and> faulted (snd (snd (crypt_cipher_init b ctx name mode key key_length hp))) = faulted hp"
    using crypt_cipher_init_failure_heap
      [of b ctx name mode key key_length hp
          "fst (crypt_cipher_init b ctx name mode key key_length hp)"
          "fst (snd (crypt_cipher_init b ctx name mode key key_length hp))"
          "snd (snd (crypt_cipher_init b ctx name mode key key_length hp))"]
    by simp
  then show "live (snd (snd (crypt_cipher_init b ctx name mode key key_length hp))) = live hp"
    and "faulted (snd (snd (crypt_cipher_init b ctx name mode key key_length hp))) = faulted hp"
    by simp_all
next
  assume a: "distinct (live hp) \<and> distinct (session_addrs p) \<and> set (session_addrs p) \<subseteq> set (live hp)"
  then show "set (live (crypt_cipher_destroy (Some p) hp)) = set (live hp) - set (session_addrs p)"
    and "faulted (crypt_cipher_destroy (Some p) hp) = faulted hp"
    using crypt_cipher_destroy_partial [of hp p] by simp_all
next
  show "crypt_cipher_destroy None hp = hp" by (simp add: crypt_cipher_destroy_def)
qed

theorem cipher_teardown_on_partial_failure_witness:
  "crypt_cipher_init toy None ''aes'' ''xts'' [1, 2] 32 (heap0\<lparr>script := [False, False, True]\<rparr>)
     = (ERR EINVAL, None, heap0)
   \<and> crypt_cipher_init toy None ''aes'' ''xts'' [1, 2] 32 (heap0\<lparr>script := [False, True, False]\<rparr>)
     = (ERR EINVAL, None, heap0)
   \<and> crypt_cipher_destroy
        (Some (Ptr 1 \<lparr>hd_enc = Some (Ptr 2 (None, [], [], True, False)), hd_dec = None\<rparr>))
        \<lparr>live = [5, 2, 1], script = [], faulted = False\<rparr>
       = \<lparr>live = [5], script = [], faulted = False\<rparr>"
  using
    cipher_teardown_on_partial_failure
      [where b = toy and ctx = None and name = "''aes''" and mode = "''xts''" and key = "[1, 2]"
         and key_length = 32 and hp = "heap0\<lparr>script := [False, False, True]\<rparr>"
         and p = "Ptr 1 \<lparr>hd_enc = Some (Ptr 2 (None, [], [], True, False)), hd_dec = None\<rparr>"]
    cipher_teardown_on_partial_failure
      [where b = toy and ctx = None and name = "''aes''" and mode = "''xts''" and key = "[1, 2]"
         and key_length = 32 and hp = "\<lparr>live = [5, 2, 1], script = [], faulted = False\<rparr>"
         and p = "Ptr 1 \<lparr>hd_enc = Some (Ptr 2 (None, [], [], True, False)), hd_dec = None\<rparr>"]
  by (simp add: run_defs session_addrs_def)

subsection \<open>Restart after finalize\<close>

text \<open>
  C3. Let \<open>fresh\<close> be the context that \<^verbatim>\<open>crypt_hash_init\<close> has just returned, and \<open>ctx\<close>
  that same context in any later state of its digest. When \<^verbatim>\<open>crypt_hash_final\<close> on
  \<open>ctx\<close> returns 0, for whatever length, the context it leaves is \<open>fresh\<close> itself,
  field by field; so a second finalize with no write in between returns what finalize
  returns on a freshly initialised context, the digest of the empty input. The library
  is assumed to set a digest context up from scratch in \<^verbatim>\<open>EVP_DigestInit_ex\<close>.
\<close>

theorem hash_final_restores_initial_state:
  assumes "digest_init_resets b"
    and "crypt_hash_init b old name hp = (OK, Some (Ptr a fresh), hp')"
    and "ctx = fresh\<lparr>md := Ptr (addr (md fresh)) m\<rparr>"
    and "crypt_hash_final b ctx buffer len tmp = Some (OK, buffer', tmp', ctx')"
  shows "ctx' = fresh
       \<and> crypt_hash_final b ctx' buffer'' len' tmp'' = crypt_hash_final b fresh buffer'' len' tmp''"
proof -
  from assms(2) obtain hid p s where
    hid: "EVP_get_digestbyname b name = Some hid"
    and s: "EVP_DigestInit_ex b (EVP_MD_CTX_init b) hid = (1, s)"
    and fresh: "fresh = \<lparr>md = Ptr p s, hash_id = hid, hash_len = EVP_MD_size b hid\<rparr>"
    by (auto simp: crypt_hash_init_def EVP_MD_CTX_new_def
        split: prod.splits option.splits if_splits)
  have reset: "\<And>x. EVP_DigestInit_ex b x hid = (1, s)"
    using assms(1) s unfolding digest_init_resets_def by metis
  from assms(4) have "ctx' = fresh"
    unfolding assms(3) fresh
    by (auto simp: crypt_hash_final_def crypt_hash_restart_def reset
        split: prod.splits option.splits if_splits)
  then show ?thesis by simp
qed

lemma toy_digest_init_resets: "digest_init_resets toy"
  by (simp add: digest_init_resets_def toy_def)

theorem hash_final_restores_initial_state_witness:
  "crypt_hash_init toy None ''sum2'' heap0
     = (OK, Some (Ptr 1 \<lparr>md = Ptr 2 [], hash_id = 2, hash_len = 2\<rparr>),
        \<lparr>live = [2, 1], script = [], faulted = False\<rparr>)
   \<and> crypt_hash_final toy \<lparr>md = Ptr 2 [5, 6], hash_id = 2, hash_len = 2\<rparr> [0, 0] 2 (replicate 64 170)
     = Some (OK, [12, 2], replicate 64 0, \<lparr>md = Ptr 2 [], hash_id = 2, hash_len = 2\<rparr>)
   \<and> crypt_hash_final toy \<lparr>md = Ptr 2 [], hash_id = 2, hash_len = 2\<rparr> [0, 0] 2 (replicate 64 170)
     = Some (OK, [1, 0], replicate 64 0, \<lparr>md = Ptr 2 [], hash_id = 2, hash_len = 2\<rparr>)"
proof -
  have i: "crypt_hash_init toy None ''sum2'' heap0
     = (OK, Some (Ptr 1 \<lparr>md = Ptr 2 [], hash_id = 2, hash_len = 2\<rparr>),
        \<lparr>live = [2, 1], script = [], faulted = False\<rparr>)"
    by (simp add: run_defs)
  have c: "\<lparr>md = Ptr 2 [5, 6], hash_id = 2, hash_len = 2\<rparr>
      = \<lparr>md = Ptr 2 [], hash_id = 2, hash_len = (2::int)\<rparr>\<lparr>md := Ptr (addr (md \<lparr>md = Ptr 2 [], hash_id = 2::nat, hash_len = (2::int)\<rparr>)) [5, 6 :: byte]\<rparr>"
    by simp
  have f: "crypt_hash_final toy \<lparr>md = Ptr 2 [5, 6], hash_id = 2, hash_len = 2\<rparr> [0, 0] 2 (replicate 64 170)
     = Some (OK, [12, 2], replicate 64 0, \<lparr>md = Ptr 2 [], hash_id = 2, hash_len = 2\<rparr>)"
    by (simp add: final_run_defs)
  have g: "crypt_hash_final toy \<lparr>md = Ptr 2 [], hash_id = 2, hash_len = 2\<rparr> [0, 0] 2 (replicate 64 170)
     = Some (OK, [1, 0], replicate 64 0, \<lparr>md = Ptr 2 [], hash_id = 2, hash_len = 2\<rparr>)"
    by (simp add: final_run_defs)
  from hash_final_restores_initial_state [OF toy_digest_init_resets i c f] i f g
  show ?thesis by simp
qed

text \<open>The context of a MAC engine, read through the library's interface.\<close>

lemma hmac_init_view:
  assumes "hmac_contract b mac view"
    and "crypt_hmac_init b old name key key_length hp = (OK, Some (Ptr a ctx), hp')"
    and "0 \<le> c_int key_length"
  shows "view (deref (hmac_md ctx)) = (hmac_hash_id ctx, take (nat (c_int key_length)) key, [])
       \<and> hmac_hash_len ctx = EVP_MD_size b (hmac_hash_id ctx)"
proof -
  from assms(1,3) have k:
    "\<And>m hid. view (snd (HMAC_Init_ex b m (Some key) (c_int key_length) hid))
               = (hid, take (nat (c_int key_length)) key, [])"
    unfolding hmac_contract_def by blast
  from assms(2) show ?thesis
    by (auto simp: crypt_hmac_init_def HMAC_CTX_new_def
        split: prod.splits option.splits if_splits)
      (metis k snd_conv)
qed

lemma hmac_write_view:
  assumes "hmac_contract b mac view"
    and "view (deref (hmac_md ctx)) = (hid, k, msg)"
  shows "view (deref (hmac_md (snd (crypt_hmac_write b ctx buffer len)))) = (hid, k, msg @ take len buffer)
       \<and> hmac_hash_id (snd (crypt_hmac_write b ctx buffer len)) = hmac_hash_id ctx
       \<and> hmac_hash_len (snd (crypt_hmac_write b ctx buffer len)) = hmac_hash_len ctx"
proof -
  from assms(1) have
    "view (snd (HMAC_Update b (deref (hmac_md ctx)) buffer len))
       = (fst (view (deref (hmac_md ctx))), fst (snd (view (deref (hmac_md ctx)))),
          snd (snd (view (deref (hmac_md ctx)))) @ take len buffer)"
    unfolding hmac_contract_def by blast
  with assms(2) show ?thesis
    by (simp add: crypt_hmac_write_def case_prod_beta)
qed

lemma hmac_writes_view:
  assumes "hmac_contract b mac view"
  shows "view (deref (hmac_md ctx)) = (hid, k, msg) \<Longrightarrow>
       view (deref (hmac_md (crypt_hmac_writes b ctx chunks))) = (hid, k, msg @ written chunks)
       \<and> hmac_hash_id (crypt_hmac_writes b ctx chunks) = hmac_hash_id ctx
       \<and> hmac_hash_len (crypt_hmac_writes b ctx chunks) = hmac_hash_len ctx"
proof (induction chunks arbitrary: ctx msg)
  case Nil
  then show ?case by simp
next
  case (Cons c chunks)
  obtain buffer len where c: "c = (buffer, len)" by (cases c)
  note w = hmac_write_view [OF assms Cons.prems, of buffer len]
  from Cons.IH [of "snd (crypt_hmac_write b ctx buffer len)" "msg @ take len buffer"] w
  show ?case by (simp add: c)
qed

lemma hmac_final_view:
  assumes "hmac_contract b mac view"
    and "view (deref (hmac_md ctx)) = (hmac_hash_id ctx, k, msg)"
    and "crypt_hmac_final b ctx buffer len tmp = Some (OK, buffer', tmp', ctx')"
  shows "view (deref (hmac_md ctx')) = (hmac_hash_id ctx, k, [])
       \<and> hmac_hash_id ctx' = hmac_hash_id ctx \<and> hmac_hash_len ctx' = hmac_hash_len ctx"
proof -
  obtain r t tl m' where f: "HMAC_Final b (deref (hmac_md ctx)) tmp = (r, t, tl, m')"
    by (cases "HMAC_Final b (deref (hmac_md ctx)) tmp") auto
  from assms(1) have
    "case HMAC_Final b (deref (hmac_md ctx)) tmp of
       (r, tmp', tmp_len, m') \<Rightarrow>
         fst (view m') = fst (view (deref (hmac_md ctx)))
         \<and> fst (snd (view m')) = fst (snd (view (deref (hmac_md ctx))))"
    unfolding hmac_contract_def by (auto split: prod.splits)
  with f assms(2) have m': "fst (view m') = hmac_hash_id ctx" "fst (snd (view m')) = k"
    by simp_all
  from assms(1) m'(1) have
    "view (snd (HMAC_Init_ex b m' None 0 (hmac_hash_id ctx)))
       = (hmac_hash_id ctx, fst (snd (view m')), [])"
    unfolding hmac_contract_def by blast
  with m' assms(3) f show ?thesis
    by (auto simp: crypt_hmac_final_def crypt_hmac_restart_def
        split: prod.splits option.splits if_splits)
qed

lemma hmac_final_tag:
  assumes "hmac_contract b mac view"
    and "view (deref (hmac_md ctx)) = (hmac_hash_id ctx, k, msg)"
    and "hmac_hash_len ctx = EVP_MD_size b (hmac_hash_id ctx)"
    and "len \<le> length (mac (hmac_hash_id ctx) k msg)"
    and "len \<le> length buffer"
  shows "\<exists>tmp' ctx'. crypt_hmac_final b ctx buffer len tmp
           = Some (OK, take len (mac (hmac_hash_id ctx) k msg) @ drop len buffer, tmp', ctx')"
proof -
  let ?tag = "mac (hmac_hash_id ctx) k msg"
  obtain r t tl m' where f: "HMAC_Final b (deref (hmac_md ctx)) tmp = (r, t, tl, m')"
    by (cases "HMAC_Final b (deref (hmac_md ctx)) tmp") auto
  from assms(1) have
    "case HMAC_Final b (deref (hmac_md ctx)) tmp of
       (r, tmp', tmp_len, m') \<Rightarrow>
         tmp_len = length (mac (fst (view (deref (hmac_md ctx))))
                     (fst (snd (view (deref (hmac_md ctx))))) (snd (snd (view (deref (hmac_md ctx))))))
         \<and> take tmp_len tmp' = mac (fst (view (deref (hmac_md ctx))))
                     (fst (snd (view (deref (hmac_md ctx))))) (snd (snd (view (deref (hmac_md ctx)))))"
    unfolding hmac_contract_def by (auto split: prod.splits)
  with f assms(2) have tl: "tl = length ?tag" and t: "take tl t = ?tag" by auto
  from assms(1) have size: "EVP_MD_size b (hmac_hash_id ctx) = int (length ?tag)"
    and small: "length ?tag \<le> EVP_MAX_MD_SIZE"
    unfolding hmac_contract_def by blast+
  from small have "length ?tag < 2 ^ 64" by (simp add: EVP_MAX_MD_SIZE_def)
  then have guard: "c_size_t (hmac_hash_len ctx) = length ?tag"
    using assms(3) size c_size_t_nat by simp
  have "length (take tl t) = min (length t) tl" by simp
  with t have lt: "length ?tag \<le> length t" by simp
  have "take len (take tl t) = take len t" using tl assms(4) by (simp add: min_def)
  with t have "take len t = take len ?tag" by simp
  with f guard tl lt assms(4,5) show ?thesis
    by (simp add: crypt_hmac_final_def memcpy_def)
qed

text \<open>
  A key length that an \<^verbatim>\<open>int\<close> holds. A MAC context is created with the first
  \<open>key_length\<close> bytes of \<open>key\<close>; a first message is written and finalize returns 0. Then,
  for every second sequence of writes and every length up to the tag size, finalize
  returns 0 and the caller's buffer holds the first \<open>len'\<close> bytes of the tag of the
  second message under that key. The key is passed to \<^verbatim>\<open>crypt_hmac_init\<close> only. The
  library is assumed to follow its HMAC interface (\<open>hmac_contract\<close>).
\<close>

lemma hmac_key_reused_after_final:
  assumes "hmac_contract b mac view"
    and "key_length < 2 ^ 31"
    and "crypt_hmac_init b old name key key_length hp = (OK, Some (Ptr a ctx), hp')"
    and "crypt_hmac_final b (crypt_hmac_writes b ctx first) buffer len tmp
           = Some (OK, buffer', tmp', ctx')"
    and "len' \<le> length (mac (hmac_hash_id ctx) (take key_length key) (written second))"
    and "len' \<le> length buffer''"
  shows "\<exists>tmp2 ctx2.
           crypt_hmac_final b (crypt_hmac_writes b ctx' second) buffer'' len' tmp''
             = Some (OK,
                     take len' (mac (hmac_hash_id ctx) (take key_length key) (written second))
                       @ drop len' buffer'',
                     tmp2, ctx2)"
proof -
  let ?k = "take key_length key"
  from assms(2) have ci: "c_int key_length = int key_length" by (rule c_int_in_range)
  then have "0 \<le> c_int key_length" by simp
  from hmac_init_view [OF assms(1,3) this] ci
  have i: "view (deref (hmac_md ctx)) = (hmac_hash_id ctx, ?k, [])
       \<and> hmac_hash_len ctx = EVP_MD_size b (hmac_hash_id ctx)"
    by simp
  note w = hmac_writes_view [OF assms(1) conjunct1 [OF i], of first]
  have "view (deref (hmac_md (crypt_hmac_writes b ctx first)))
          = (hmac_hash_id (crypt_hmac_writes b ctx first), ?k, [] @ written first)"
    using w by simp
  note f = hmac_final_view [OF assms(1) this assms(4)]
  have v': "view (deref (hmac_md ctx')) = (hmac_hash_id ctx, ?k, [])"
    and ids: "hmac_hash_id ctx' = hmac_hash_id ctx" "hmac_hash_len ctx' = hmac_hash_len ctx"
    using f w by simp_all
  note w2 = hmac_writes_view [OF assms(1) v', of second]
  let ?c = "crypt_hmac_writes b ctx' second"
  have v2: "view (deref (hmac_md ?c)) = (hmac_hash_id ?c, ?k, written second)"
    and id2: "hmac_hash_id ?c = hmac_hash_id ctx"
    and len2: "hmac_hash_len ?c = EVP_MD_size b (hmac_hash_id ?c)"
    using w2 ids i by simp_all
  from hmac_final_tag [OF assms(1) v2 len2, of len' buffer'' tmp''] assms(5,6) id2
  show ?thesis by simp
qed

lemma toy_hmac_contract: "hmac_contract toy (\<lambda>hid. toy_mac) (\<lambda>m. m)"
  by (simp add: hmac_contract_def toy_def toy_mac_def toy_digest_def EVP_MAX_MD_SIZE_def)

lemma hmac_key_reused_after_final_run:
  "crypt_hmac_init toy None ''sum2'' [7, 8, 9] 2 heap0
     = (OK, Some (Ptr 1 \<lparr>hmac_md = Ptr 2 (2, [7, 8], []), hmac_hash_id = 2, hmac_hash_len = 2\<rparr>),
        \<lparr>live = [2, 1], script = [], faulted = False\<rparr>)
   \<and> crypt_hmac_final toy
         (crypt_hmac_writes toy
            \<lparr>hmac_md = Ptr 2 (2, [7, 8], []), hmac_hash_id = 2, hmac_hash_len = 2\<rparr>
            [([1, 2, 3], 2)])
         [0, 0] 2 (replicate 64 170)
     = Some (OK, [19, 4], replicate 64 0,
             \<lparr>hmac_md = Ptr 2 (2, [7, 8], []), hmac_hash_id = 2, hmac_hash_len = 2\<rparr>)
   \<and> (\<exists>tmp2 ctx2.
        crypt_hmac_final toy
          (crypt_hmac_writes toy
             \<lparr>hmac_md = Ptr 2 (2, [7, 8], []), hmac_hash_id = 2, hmac_hash_len = 2\<rparr>
             [([5], 1), ([6, 9], 1)])
          [0, 0] 1 (replicate 64 170)
        = Some (OK, [27, 0], tmp2, ctx2))
   \<and> toy_mac [7, 8] [5, 6] = [27, 4]"
proof -
  have i: "crypt_hmac_init toy None ''sum2'' [7, 8, 9] 2 heap0
     = (OK, Some (Ptr 1 \<lparr>hmac_md = Ptr 2 (2, [7, 8], []), hmac_hash_id = 2, hmac_hash_len = 2\<rparr>),
        \<lparr>live = [2, 1], script = [], faulted = False\<rparr>)"
    by (simp add: run_defs c_int_def)
  have f: "crypt_hmac_final toy
         (crypt_hmac_writes toy
            \<lparr>hmac_md = Ptr 2 (2, [7, 8], []), hmac_hash_id = 2, hmac_hash_len = 2\<rparr>
            [([1, 2, 3], 2)])
         [0, 0] 2 (replicate 64 170)
     = Some (OK, [19, 4], replicate 64 0,
             \<lparr>hmac_md = Ptr 2 (2, [7, 8], []), hmac_hash_id = 2, hmac_hash_len = 2\<rparr>)"
    by (simp add: final_run_defs crypt_hmac_write_def)
  have t: "toy_mac [7, 8] [5, 6] = [27, 4]"
    by (simp add: toy_mac_def toy_digest_def)
  have b: "(2::nat) < 2 ^ 31" by simp
  from hmac_key_reused_after_final
    [OF toy_hmac_contract b i f, of 1 "[([5], 1), ([6, 9], 1)]" "[0, 0]" "replicate 64 170"]
    i f t
  show ?thesis by simp
qed

text \<open>
  Whatever the library does, \<^verbatim>\<open>crypt_hmac_init\<close> cannot tell a key length from the same
  length plus \<open>2 ^ 32\<close>: the library is handed the same \<^verbatim>\<open>int\<close>.
\<close>

lemma crypt_hmac_init_key_length_wraps:
  "crypt_hmac_init b old name key (key_length + 2 ^ 32) hp
     = crypt_hmac_init b old name key key_length hp"
  by (simp only: crypt_hmac_init_def c_int_wraps)

text \<open>
  C4. The claim says that a context created with the key \<open>K\<close> produces, after a
  finalize, the tag of the new data under \<open>K\<close>. \<^verbatim>\<open>crypt_hmac_init\<close> hands its
  \<^verbatim>\<open>size_t key_length\<close> to the \<^verbatim>\<open>int\<close> length of \<^verbatim>\<open>HMAC_Init_ex\<close> with no range check, so
  a key of \<open>2 ^ 31\<close> bytes or more does not reach the library as it is. For a key of
  4294967298 bytes the library is handed the length 2: \<^verbatim>\<open>crypt_hmac_init\<close> returns 0
  with a context that holds the first two bytes of the key, and the tags before and
  after a finalize are tags under these two bytes, not under the key. The last line is
  the tag of the second message under the whole key.
\<close>

theorem crypt_hmac_init_truncates_key_length:
  "length (7 # 8 # 5 # replicate 4294967295 (0::byte)) = 4294967298
   \<and> c_int 4294967298 = 2
   \<and> crypt_hmac_init toy None ''sum2'' (7 # 8 # 5 # replicate 4294967295 0) 4294967298 heap0
     = (OK, Some (Ptr 1 \<lparr>hmac_md = Ptr 2 (2, [7, 8], []), hmac_hash_id = 2, hmac_hash_len = 2\<rparr>),
        \<lparr>live = [2, 1], script = [], faulted = False\<rparr>)
   \<and> crypt_hmac_final toy
         (crypt_hmac_writes toy
            \<lparr>hmac_md = Ptr 2 (2, [7, 8], []), hmac_hash_id = 2, hmac_hash_len = 2\<rparr>
            [([1, 2, 3], 3)])
         [0, 0] 2 (replicate 64 170)
     = Some (OK, [22, 5], replicate 64 0,
             \<lparr>hmac_md = Ptr 2 (2, [7, 8], []), hmac_hash_id = 2, hmac_hash_len = 2\<rparr>)
   \<and> crypt_hmac_final toy
         (crypt_hmac_writes toy
            \<lparr>hmac_md = Ptr 2 (2, [7, 8], []), hmac_hash_id = 2, hmac_hash_len = 2\<rparr>
            [([4], 1)])
         [0, 0] 2 (replicate 64 170)
     = Some (OK, [20, 3], replicate 64 0,
             \<lparr>hmac_md = Ptr 2 (2, [7, 8], []), hmac_hash_id = 2, hmac_hash_len = 2\<rparr>)
   \<and> toy_mac (7 # 8 # 5 # replicate 4294967295 0) [4] = [25, 3]"
proof (intro conjI)
  show "length (7 # 8 # 5 # replicate 4294967295 (0::byte)) = 4294967298" by simp
  show "c_int 4294967298 = 2" by (simp add: c_int_def)
  show "crypt_hmac_init toy None ''sum2'' (7 # 8 # 5 # replicate 4294967295 0) 4294967298 heap0
     = (OK, Some (Ptr 1 \<lparr>hmac_md = Ptr 2 (2, [7, 8], []), hmac_hash_id = 2, hmac_hash_len = 2\<rparr>),
        \<lparr>live = [2, 1], script = [], faulted = False\<rparr>)"
    by (simp add: run_defs c_int_def)
  show "crypt_hmac_final toy
         (crypt_hmac_writes toy
            \<lparr>hmac_md = Ptr 2 (2, [7, 8], []), hmac_hash_id = 2, hmac_hash_len = 2\<rparr>
            [([1, 2, 3], 3)])
         [0, 0] 2 (replicate 64 170)
     = Some (OK, [22, 5], replicate 64 0,
             \<lparr>hmac_md = Ptr 2 (2, [7, 8], []), hmac_hash_id = 2, hmac_hash_len = 2\<rparr>)"
    by (simp add: final_run_defs crypt_hmac_write_def)
  show "crypt_hmac_final toy
         (crypt_hmac_writes toy
            \<lparr>hmac_md = Ptr 2 (2, [7, 8], []), hmac_hash_id = 2, hmac_hash_len = 2\<rparr>
            [([4], 1)])
         [0, 0] 2 (replicate 64 170)
     = Some (OK, [20, 3], replicate 64 0,
             \<lparr>hmac_md = Ptr 2 (2, [7, 8], []), hmac_hash_id = 2, hmac_hash_len = 2\<rparr>)"
    by (simp add: final_run_defs crypt_hmac_write_def)
  show "toy_mac (7 # 8 # 5 # replicate 4294967295 0) [4] = [25, 3]"
    by (simp add: toy_mac_def toy_digest_def sum_list_replicate)
qed

subsection \<open>Encrypt and decrypt\<close>

lemma store_at_start:
  "length bs \<le> length buf \<Longrightarrow> store_at buf 0 bs = Some (bs @ drop (length bs) buf)"
  by (simp add: store_at_def)

lemma store_at_nothing: "off \<le> length buf \<Longrightarrow> store_at buf off [] = Some buf"
  by (simp add: store_at_def)

lemma cipher_contract_init:
  assumes "cipher_contract b enc dec view fits"
  shows "EVP_EncryptInit_ex b c (Some t) (Some k) None = (1, c')
           \<Longrightarrow> ctype (view c') = Some t \<and> ckey (view c') = k \<and> cenc (view c')"
    and "EVP_DecryptInit_ex b c (Some t) (Some k) None = (1, c')
           \<Longrightarrow> ctype (view c') = Some t \<and> ckey (view c') = k \<and> \<not> cenc (view c')"
    and "EVP_CIPHER_CTX_set_padding b c 0 = (1, c') \<Longrightarrow> view c' = (view c)\<lparr>cpad := False\<rparr>"
proof -
  from assms have
    e: "\<forall>c t k c'. EVP_EncryptInit_ex b c (Some t) (Some k) None = (1, c')
          \<longrightarrow> ctype (view c') = Some t \<and> ckey (view c') = k \<and> cenc (view c')"
    unfolding cipher_contract_def by (rule conjunct1)
  from assms have
    d: "\<forall>c t k c'. EVP_DecryptInit_ex b c (Some t) (Some k) None = (1, c')
          \<longrightarrow> ctype (view c') = Some t \<and> ckey (view c') = k \<and> \<not> cenc (view c')"
    unfolding cipher_contract_def by (rule conjunct2 [THEN conjunct1])
  from assms have
    p: "\<forall>c c'. EVP_CIPHER_CTX_set_padding b c 0 = (1, c')
          \<longrightarrow> view c' = (view c)\<lparr>cpad := False\<rparr>"
    unfolding cipher_contract_def by (rule conjunct2 [THEN conjunct2, THEN conjunct1])
  show "EVP_EncryptInit_ex b c (Some t) (Some k) None = (1, c')
           \<Longrightarrow> ctype (view c') = Some t \<and> ckey (view c') = k \<and> cenc (view c')"
    using e by blast
  show "EVP_DecryptInit_ex b c (Some t) (Some k) None = (1, c')
           \<Longrightarrow> ctype (view c') = Some t \<and> ckey (view c') = k \<and> \<not> cenc (view c')"
    using d by blast
  show "EVP_CIPHER_CTX_set_padding b c 0 = (1, c') \<Longrightarrow> view c' = (view c)\<lparr>cpad := False\<rparr>"
    using p by blast
qed

lemma cipher_contract_iv:
  assumes "cipher_contract b enc dec view fits" and "ctype (view c) = Some t"
  shows "cenc (view c) \<Longrightarrow> EVP_EncryptInit_ex b c None None (Some iv) = (r, c')
           \<Longrightarrow> r = 1 \<and> view c' = (view c)\<lparr>civ := Some iv\<rparr>"
    and "\<not> cenc (view c) \<Longrightarrow> EVP_DecryptInit_ex b c None None (Some iv) = (r, c')
           \<Longrightarrow> r = 1 \<and> view c' = (view c)\<lparr>civ := Some iv\<rparr>"
proof -
  from assms(1) have
    e: "\<forall>c iv. ctype (view c) \<noteq> None \<and> cenc (view c)
          \<longrightarrow> fst (EVP_EncryptInit_ex b c None None (Some iv)) = 1
            \<and> view (snd (EVP_EncryptInit_ex b c None None (Some iv))) = (view c)\<lparr>civ := Some iv\<rparr>"
    unfolding cipher_contract_def
    by (rule conjunct2 [THEN conjunct2, THEN conjunct2, THEN conjunct1])
  from assms(1) have
    d: "\<forall>c iv. ctype (view c) \<noteq> None \<and> \<not> cenc (view c)
          \<longrightarrow> fst (EVP_DecryptInit_ex b c None None (Some iv)) = 1
            \<and> view (snd (EVP_DecryptInit_ex b c None None (Some iv))) = (view c)\<lparr>civ := Some iv\<rparr>"
    unfolding cipher_contract_def
    by (rule conjunct2 [THEN conjunct2, THEN conjunct2, THEN conjunct2, THEN conjunct1])
  from assms(2) have t: "ctype (view c) \<noteq> None" by simp
  show "cenc (view c) \<Longrightarrow> EVP_EncryptInit_ex b c None None (Some iv) = (r, c')
           \<Longrightarrow> r = 1 \<and> view c' = (view c)\<lparr>civ := Some iv\<rparr>"
    using e [rule_format, of c iv] t by simp
  show "\<not> cenc (view c) \<Longrightarrow> EVP_DecryptInit_ex b c None None (Some iv) = (r, c')
           \<Longrightarrow> r = 1 \<and> view c' = (view c)\<lparr>civ := Some iv\<rparr>"
    using d [rule_format, of c iv] t by simp
qed

lemma cipher_contract_encrypt:
  assumes "cipher_contract b enc dec view fits"
    and "ctype (view c) = Some t" and "\<not> cpad (view c)" and "cenc (view c)"
    and "0 \<le> n" and "AES_BLOCK_SIZE dvd nat n" and "fits t (nat n)" and "nat n \<le> length inp"
    and "EVP_EncryptUpdate b c inp n = (r, out, c')"
    and "EVP_EncryptFinal b c' = (r', out', c'')"
  shows "r = 1 \<and> out = enc t (ckey (view c)) (civ (view c)) (take (nat n) inp)
       \<and> r' = 1 \<and> out' = [] \<and> ctype (view c'') = Some t
       \<and> ckey (view c'') = ckey (view c) \<and> \<not> cpad (view c'') \<and> cenc (view c'')"
proof -
  from assms(1) have
    "\<forall>c t inp n. ctype (view c) = Some t \<and> \<not> cpad (view c) \<and> cenc (view c)
              \<and> 0 \<le> n \<and> AES_BLOCK_SIZE dvd nat n \<and> fits t (nat n) \<and> nat n \<le> length inp
          \<longrightarrow> (case EVP_EncryptUpdate b c inp n of
                 (r, out, c') \<Rightarrow>
                   r = 1 \<and> out = enc t (ckey (view c)) (civ (view c)) (take (nat n) inp)
                   \<and> (case EVP_EncryptFinal b c' of
                        (r', out', c'') \<Rightarrow>
                          r' = 1 \<and> out' = [] \<and> ctype (view c'') = Some t
                          \<and> ckey (view c'') = ckey (view c) \<and> \<not> cpad (view c'')
                          \<and> cenc (view c'')))"
    unfolding cipher_contract_def
    by (rule conjunct2 [THEN conjunct2, THEN conjunct2, THEN conjunct2, THEN conjunct2,
          THEN conjunct1])
  from this [rule_format, of c t n inp] assms(2-10) show ?thesis by simp
qed

lemma cipher_contract_decrypt:
  assumes "cipher_contract b enc dec view fits"
    and "ctype (view c) = Some t" and "\<not> cpad (view c)" and "\<not> cenc (view c)"
    and "0 \<le> n" and "AES_BLOCK_SIZE dvd nat n" and "fits t (nat n)" and "nat n \<le> length inp"
    and "EVP_DecryptUpdate b c inp n = (r, out, c')"
    and "EVP_DecryptFinal b c' = (r', out', c'')"
  shows "r = 1 \<and> out = dec t (ckey (view c)) (civ (view c)) (take (nat n) inp)
       \<and> r' = 1 \<and> out' = [] \<and> ctype (view c'') = Some t
       \<and> ckey (view c'') = ckey (view c) \<and> \<not> cpad (view c'') \<and> \<not> cenc (view c'')"
proof -
  from assms(1) have
    "\<forall>c t inp n. ctype (view c) = Some t \<and> \<not> cpad (view c) \<and> \<not> cenc (view c)
              \<and> 0 \<le> n \<and> AES_BLOCK_SIZE dvd nat n \<and> fits t (nat n) \<and> nat n \<le> length inp
          \<longrightarrow> (case EVP_DecryptUpdate b c inp n of
                 (r, out, c') \<Rightarrow>
                   r = 1 \<and> out = dec t (ckey (view c)) (civ (view c)) (take (nat n) inp)
                   \<and> (case EVP_DecryptFinal b c' of
                        (r', out', c'') \<Rightarrow>
                          r' = 1 \<and> out' = [] \<and> ctype (view c'') = Some t
                          \<and> ckey (view c'') = ckey (view c) \<and> \<not> cpad (view c'')
                          \<and> \<not> cenc (view c'')))"
    unfolding cipher_contract_def
    by (rule conjunct2 [THEN conjunct2, THEN conjunct2, THEN conjunct2, THEN conjunct2,
          THEN conjunct2, THEN conjunct1])
  from this [rule_format, of c t n inp] assms(2-10) show ?thesis by simp
qed

lemma cipher_contract_inverse:
  assumes "cipher_contract b enc dec view fits" and "AES_BLOCK_SIZE dvd length p"
  shows "length (enc t k iv p) = length p \<and> dec t k iv (enc t k iv p) = p"
proof -
  from assms(1) have
    "\<forall>t k iv p. AES_BLOCK_SIZE dvd length p
          \<longrightarrow> length (enc t k iv p) = length p \<and> dec t k iv (enc t k iv p) = p"
    unfolding cipher_contract_def
    by (rule conjunct2 [THEN conjunct2, THEN conjunct2, THEN conjunct2, THEN conjunct2,
          THEN conjunct2, THEN conjunct2])
  with assms(2) show ?thesis by blast
qed

text \<open>
  What \<^verbatim>\<open>crypt_cipher_init\<close> establishes: both contexts hold the resolved cipher and the
  key with the padding flag cleared, \<^verbatim>\<open>hd_enc\<close> set up by \<^verbatim>\<open>EVP_EncryptInit_ex\<close> and
  \<^verbatim>\<open>hd_dec\<close> by \<^verbatim>\<open>EVP_DecryptInit_ex\<close>.
\<close>

lemma crypt_cipher_init_armed:
  assumes "cipher_contract b enc dec view fits"
    and "crypt_cipher_init b old name mode key key_length hp = (OK, Some (Ptr a s), hp')"
  shows "\<exists>t. crypt_cipher_init_type name mode key_length = Inr t \<and> armed view t key s"
proof -
  note ei = cipher_contract_init(1) [OF assms(1)]
    and di = cipher_contract_init(2) [OF assms(1)]
    and pad = cipher_contract_init(3) [OF assms(1)]
  from assms(2) obtain t e d ea da eb db where
    t: "crypt_cipher_init_type name mode key_length = Inr t"
    and e1: "EVP_EncryptInit_ex b (deref e) (Some t) (Some key) None = (1, ea)"
    and d1: "EVP_DecryptInit_ex b (deref d) (Some t) (Some key) None = (1, da)"
    and e2: "EVP_CIPHER_CTX_set_padding b ea 0 = (1, eb)"
    and d2: "EVP_CIPHER_CTX_set_padding b da 0 = (1, db)"
    and s: "s = \<lparr>hd_enc = Some (Ptr (addr e) eb), hd_dec = Some (Ptr (addr d) db)\<rparr>"
    by (auto simp: crypt_cipher_init_def split: sum.splits prod.splits option.splits if_splits)
  from ei [OF e1] pad [OF e2] di [OF d1] pad [OF d2] s have "armed view t key s"
    by (simp add: armed_def)
  with t show ?thesis by blast
qed

lemma crypt_cipher_encrypt_armed:
  assumes "cipher_contract b enc dec view fits"
    and "armed view t k s"
    and "len < 2 ^ 31" and "fits t len"
    and "AES_BLOCK_SIZE dvd len" and "len \<le> length inp" and "len \<le> length out"
  shows "\<exists>s'. crypt_cipher_encrypt b s inp out len (Some iv) iv_length
           = Some (OK, enc t k (Some iv) (take len inp) @ drop len out, s')
         \<and> armed view t k s'"
proof -
  from assms(3) have ci: "c_int len = int len" by (rule c_int_in_range)
  from assms(2) obtain e d where
    e: "hd_enc s = Some e" and d: "hd_dec s = Some d"
    and ev: "ctype (view (deref e)) = Some t" "ckey (view (deref e)) = k"
      "\<not> cpad (view (deref e))" "cenc (view (deref e))"
    and dv: "ctype (view (deref d)) = Some t" "ckey (view (deref d)) = k"
      "\<not> cpad (view (deref d))" "\<not> cenc (view (deref d))"
    by (auto simp: armed_def split: option.splits)
  obtain r1 e1 where i: "EVP_EncryptInit_ex b (deref e) None None (Some iv) = (r1, e1)"
    by (cases "EVP_EncryptInit_ex b (deref e) None None (Some iv)")
  from cipher_contract_iv(1) [OF assms(1) ev(1) ev(4) i]
  have r1: "r1 = 1" and v1: "view e1 = (view (deref e))\<lparr>civ := Some iv\<rparr>" by simp_all
  obtain r2 o1 e2 where u: "EVP_EncryptUpdate b e1 inp (int len) = (r2, o1, e2)"
    by (cases "EVP_EncryptUpdate b e1 inp (int len)") auto
  obtain r3 o2 e3 where f: "EVP_EncryptFinal b e2 = (r3, o2, e3)"
    by (cases "EVP_EncryptFinal b e2") auto
  from v1 ev have t1: "ctype (view e1) = Some t" and p1: "\<not> cpad (view e1)"
    and c1: "cenc (view e1)"
    and k1: "ckey (view e1) = k" and iv1: "civ (view e1) = Some iv"
    by simp_all
  have n0: "0 \<le> int len" by simp
  from assms(4,5,6) have n1: "AES_BLOCK_SIZE dvd nat (int len)" and nf: "fits t (nat (int len))"
    and n2: "nat (int len) \<le> length inp"
    by simp_all
  from cipher_contract_encrypt [OF assms(1) t1 p1 c1 n0 n1 nf n2 u f] k1 iv1 have
    r2: "r2 = 1" and o1: "o1 = enc t k (Some iv) (take len inp)"
    and r3: "r3 = 1" and o2: "o2 = []"
    and v3: "ctype (view e3) = Some t" "ckey (view e3) = k" "\<not> cpad (view e3)" "cenc (view e3)"
    by simp_all
  have "AES_BLOCK_SIZE dvd length (take len inp)" using assms(5,6) by (simp add: min_def)
  from cipher_contract_inverse [OF assms(1) this, of t k "Some iv"] o1 assms(6)
  have lo: "length o1 = len" by simp
  let ?s = "s\<lparr>hd_enc := Some (Ptr (addr e) e3)\<rparr>"
  from e i r1 u r2 f r3 o2 lo assms(7)
  have "crypt_cipher_encrypt b s inp out len (Some iv) iv_length
          = Some (OK, o1 @ drop len out, ?s)"
    by (simp add: crypt_cipher_encrypt_def store_at_def ci)
  moreover from d dv v3 have "armed view t k ?s" by (simp add: armed_def)
  ultimately show ?thesis using o1 by blast
qed

lemma crypt_cipher_decrypt_armed:
  assumes "cipher_contract b enc dec view fits"
    and "armed view t k s"
    and "length p < 2 ^ 31" and "fits t (length p)"
    and "AES_BLOCK_SIZE dvd length p" and "length p \<le> length out"
  shows "\<exists>s'. crypt_cipher_decrypt b s (enc t k (Some iv) p @ rest) out (length p) (Some iv) iv_length
           = Some (OK, p @ drop (length p) out, s')
         \<and> armed view t k s'"
proof -
  let ?inp = "enc t k (Some iv) p @ rest"
  from assms(3) have ci: "c_int (length p) = int (length p)" by (rule c_int_in_range)
  note inv = cipher_contract_inverse [OF assms(1,5), of t k "Some iv"]
  from inv have tk: "take (length p) ?inp = enc t k (Some iv) p" by simp
  from inv have li: "nat (int (length p)) \<le> length ?inp" by simp
  from assms(2) obtain e d where
    e: "hd_enc s = Some e" and d: "hd_dec s = Some d"
    and ev: "ctype (view (deref e)) = Some t" "ckey (view (deref e)) = k"
      "\<not> cpad (view (deref e))" "cenc (view (deref e))"
    and dv: "ctype (view (deref d)) = Some t" "ckey (view (deref d)) = k"
      "\<not> cpad (view (deref d))" "\<not> cenc (view (deref d))"
    by (auto simp: armed_def split: option.splits)
  obtain r1 d1 where i: "EVP_DecryptInit_ex b (deref d) None None (Some iv) = (r1, d1)"
    by (cases "EVP_DecryptInit_ex b (deref d) None None (Some iv)")
  from cipher_contract_iv(2) [OF assms(1) dv(1) dv(4) i]
  have r1: "r1 = 1" and v1: "view d1 = (view (deref d))\<lparr>civ := Some iv\<rparr>" by simp_all
  obtain r2 o1 d2 where u: "EVP_DecryptUpdate b d1 ?inp (int (length p)) = (r2, o1, d2)"
    by (cases "EVP_DecryptUpdate b d1 ?inp (int (length p))") auto
  obtain r3 o2 d3 where f: "EVP_DecryptFinal b d2 = (r3, o2, d3)"
    by (cases "EVP_DecryptFinal b d2") auto
  from v1 dv have t1: "ctype (view d1) = Some t" and p1: "\<not> cpad (view d1)"
    and c1: "\<not> cenc (view d1)"
    and k1: "ckey (view d1) = k" and iv1: "civ (view d1) = Some iv"
    by simp_all
  have n0: "0 \<le> int (length p)" by simp
  from assms(4,5) have n1: "AES_BLOCK_SIZE dvd nat (int (length p))"
    and nf: "fits t (nat (int (length p)))" by simp_all
  from cipher_contract_decrypt [OF assms(1) t1 p1 c1 n0 n1 nf li u f] k1 iv1 tk inv have
    r2: "r2 = 1" and o1: "o1 = p"
    and r3: "r3 = 1" and o2: "o2 = []"
    and v3: "ctype (view d3) = Some t" "ckey (view d3) = k" "\<not> cpad (view d3)"
      "\<not> cenc (view d3)"
    by simp_all
  let ?s = "s\<lparr>hd_dec := Some (Ptr (addr d) d3)\<rparr>"
  from d i r1 u r2 f r3 o2 o1 assms(6)
  have "crypt_cipher_decrypt b s ?inp out (length p) (Some iv) iv_length
          = Some (OK, p @ drop (length p) out, ?s)"
    by (simp add: crypt_cipher_decrypt_def store_at_def ci)
  moreover from e ev v3 have "armed view t k ?s" by (simp add: armed_def)
  ultimately show ?thesis by blast
qed

lemma cipher_round_trip_armed:
  assumes "cipher_contract b enc dec view fits"
    and "armed view t k s" and "length p < 2 ^ 31" and "fits t (length p)"
    and "AES_BLOCK_SIZE dvd length p"
    and "length p \<le> length out" and "length p \<le> length out'"
  shows "\<exists>c sa sb.
           crypt_cipher_encrypt b s p out (length p) (Some iv) iv_length
             = Some (OK, c @ drop (length p) out, sa)
           \<and> length c = length p
           \<and> crypt_cipher_decrypt b sa (c @ drop (length p) out) out' (length p) (Some iv)
               iv_length'
             = Some (OK, p @ drop (length p) out', sb)
           \<and> armed view t k sb"
proof -
  from crypt_cipher_encrypt_armed [OF assms(1,2,3,4,5) _ assms(6), of p iv iv_length]
  obtain sa where
    en: "crypt_cipher_encrypt b s p out (length p) (Some iv) iv_length
           = Some (OK, enc t k (Some iv) p @ drop (length p) out, sa)"
    and ara: "armed view t k sa"
    by auto
  from crypt_cipher_decrypt_armed
    [OF assms(1) ara assms(3,4,5,7), of iv "drop (length p) out" iv_length']
  obtain sb where
    de: "crypt_cipher_decrypt b sa (enc t k (Some iv) p @ drop (length p) out) out' (length p)
            (Some iv) iv_length'
           = Some (OK, p @ drop (length p) out', sb)"
    and arb: "armed view t k sb"
    by auto
  from cipher_contract_inverse [OF assms(1,5), of t k "Some iv"]
  have "length (enc t k (Some iv) p) = length p" by simp
  with en de arb show ?thesis by blast
qed

text \<open>
  A plaintext shorter than \<open>2 ^ 31\<close> bytes whose length is a multiple of the block
  size and one the resolved cipher takes, on a session that \<^verbatim>\<open>crypt_cipher_init\<close> has returned, with any key and any IV:
  \<^verbatim>\<open>crypt_cipher_encrypt\<close> returns 0 and fills the first \<open>length p\<close> bytes of its output
  buffer, and \<^verbatim>\<open>crypt_cipher_decrypt\<close> of that output with the same session and IV
  returns 0 and the plaintext. The session stays as init left it, so the same holds
  after any number of earlier calls with other IVs. The library is assumed to follow
  its cipher interface (\<open>cipher_contract\<close>), which includes that the cipher's
  decryption undoes its encryption; the two output buffers hold at least \<open>length p\<close>
  bytes.
\<close>

lemma cipher_round_trip_below_int_max:
  assumes "cipher_contract b enc dec view fits"
    and "crypt_cipher_init b old name mode key key_length hp = (OK, Some (Ptr a s), hp')"
    and "crypt_cipher_init_type name mode key_length = Inr t"
    and "length p < 2 ^ 31" and "fits t (length p)" and "AES_BLOCK_SIZE dvd length p"
    and "length p \<le> length out" and "length p \<le> length out'"
  shows "\<exists>c sa sb.
           crypt_cipher_encrypt b s p out (length p) (Some iv) iv_length
             = Some (OK, c @ drop (length p) out, sa)
           \<and> length c = length p
           \<and> crypt_cipher_decrypt b sa (c @ drop (length p) out) out' (length p) (Some iv)
               iv_length'
             = Some (OK, p @ drop (length p) out', sb)"
proof -
  from crypt_cipher_init_armed [OF assms(1,2)] assms(3) have "armed view t key s"
    by auto
  from cipher_round_trip_armed [OF assms(1) this assms(4-8), of iv iv_length iv_length']
  show ?thesis by blast
qed

lemma toy_cipher_contract: "cipher_contract toy toy_enc toy_dec toy_cipher_view (\<lambda>t n. True)"
  unfolding cipher_contract_def
proof (intro conjI allI impI)
  fix t k iv and p :: bytes
  show "length (toy_enc t k iv p) = length p" by (simp add: toy_enc_def)
  show "toy_dec t k iv (toy_enc t k iv p) = p"
    by (simp add: toy_enc_def toy_dec_def o_def)
qed (auto simp: toy_def toy_cipher_init_def toy_cipher_view_def toy_encrypt_update_def
      toy_decrypt_update_def toy_enc_def toy_dec_def split: prod.splits)

text \<open>
  A run on the small library: one block under a 16-byte key, with the session that
  \<^verbatim>\<open>crypt_cipher_init\<close> returns.
\<close>

lemma cipher_round_trip_below_int_max_run:
  "crypt_cipher_init toy None ''aes'' ''cbc''
       [1, 0, 0, 0, 0, 0, 0, 0, 0, 0, 0, 0, 0, 0, 0, 2] 16 heap0
     = (OK,
        Some (Ptr 1
         \<lparr>hd_enc = Some (Ptr 2 (Some EVP_aes_128_cbc,
            [1, 0, 0, 0, 0, 0, 0, 0, 0, 0, 0, 0, 0, 0, 0, 2], [], False, True)),
          hd_dec = Some (Ptr 3 (Some EVP_aes_128_cbc,
            [1, 0, 0, 0, 0, 0, 0, 0, 0, 0, 0, 0, 0, 0, 0, 2], [], False, False))\<rparr>),
        \<lparr>live = [3, 2, 1], script = [], faulted = False\<rparr>)
   \<and> crypt_cipher_encrypt toy
         \<lparr>hd_enc = Some (Ptr 2 (Some EVP_aes_128_cbc,
            [1, 0, 0, 0, 0, 0, 0, 0, 0, 0, 0, 0, 0, 0, 0, 2], [], False, True)),
          hd_dec = Some (Ptr 3 (Some EVP_aes_128_cbc,
            [1, 0, 0, 0, 0, 0, 0, 0, 0, 0, 0, 0, 0, 0, 0, 2], [], False, False))\<rparr>
         [10, 20, 30, 40, 50, 60, 70, 80, 90, 100, 110, 120, 130, 140, 150, 250]
         [0, 0, 0, 0, 0, 0, 0, 0, 0, 0, 0, 0, 0, 0, 0, 0] 16
         (Some [4, 0, 0, 0, 0, 0, 0, 0, 0, 0, 0, 0, 0, 0, 0, 0]) 16
       = Some (OK,
           [18, 28, 38, 48, 58, 68, 78, 88, 98, 108, 118, 128, 138, 148, 158, 2],
          \<lparr>hd_enc = Some (Ptr 2 (Some EVP_aes_128_cbc,
            [1, 0, 0, 0, 0, 0, 0, 0, 0, 0, 0, 0, 0, 0, 0, 2], [4, 0, 0, 0, 0, 0, 0, 0, 0, 0, 0, 0, 0, 0, 0, 0], False, True)),
          hd_dec = Some (Ptr 3 (Some EVP_aes_128_cbc,
            [1, 0, 0, 0, 0, 0, 0, 0, 0, 0, 0, 0, 0, 0, 0, 2], [], False, False))\<rparr>)
   \<and> crypt_cipher_decrypt toy
         \<lparr>hd_enc = Some (Ptr 2 (Some EVP_aes_128_cbc,
            [1, 0, 0, 0, 0, 0, 0, 0, 0, 0, 0, 0, 0, 0, 0, 2], [4, 0, 0, 0, 0, 0, 0, 0, 0, 0, 0, 0, 0, 0, 0, 0], False, True)),
          hd_dec = Some (Ptr 3 (Some EVP_aes_128_cbc,
            [1, 0, 0, 0, 0, 0, 0, 0, 0, 0, 0, 0, 0, 0, 0, 2], [], False, False))\<rparr>
         [18, 28, 38, 48, 58, 68, 78, 88, 98, 108, 118, 128, 138, 148, 158, 2]
         [0, 0, 0, 0, 0, 0, 0, 0, 0, 0, 0, 0, 0, 0, 0, 0] 16
         (Some [4, 0, 0, 0, 0, 0, 0, 0, 0, 0, 0, 0, 0, 0, 0, 0]) 16
       = Some (OK,
           [10, 20, 30, 40, 50, 60, 70, 80, 90, 100, 110, 120, 130, 140, 150, 250],
          \<lparr>hd_enc = Some (Ptr 2 (Some EVP_aes_128_cbc,
            [1, 0, 0, 0, 0, 0, 0, 0, 0, 0, 0, 0, 0, 0, 0, 2], [4, 0, 0, 0, 0, 0, 0, 0, 0, 0, 0, 0, 0, 0, 0, 0], False, True)),
          hd_dec = Some (Ptr 3 (Some EVP_aes_128_cbc,
            [1, 0, 0, 0, 0, 0, 0, 0, 0, 0, 0, 0, 0, 0, 0, 2], [4, 0, 0, 0, 0, 0, 0, 0, 0, 0, 0, 0, 0, 0, 0, 0], False, False))\<rparr>)
   \<and> (\<exists>c sa sb.
         crypt_cipher_encrypt toy
          \<lparr>hd_enc = Some (Ptr 2 (Some EVP_aes_128_cbc,
            [1, 0, 0, 0, 0, 0, 0, 0, 0, 0, 0, 0, 0, 0, 0, 2], [], False, True)),
          hd_dec = Some (Ptr 3 (Some EVP_aes_128_cbc,
            [1, 0, 0, 0, 0, 0, 0, 0, 0, 0, 0, 0, 0, 0, 0, 2], [], False, False))\<rparr>
             [10, 20, 30, 40, 50, 60, 70, 80, 90, 100, 110, 120, 130, 140, 150, 250]
             [0, 0, 0, 0, 0, 0, 0, 0, 0, 0, 0, 0, 0, 0, 0, 0]
             (length ([10, 20, 30, 40, 50, 60, 70, 80, 90, 100, 110, 120, 130, 140, 150, 250] :: bytes))
             (Some [4, 0, 0, 0, 0, 0, 0, 0, 0, 0, 0, 0, 0, 0, 0, 0]) 16
           = Some (OK, c @ drop (length ([10, 20, 30, 40, 50, 60, 70, 80, 90, 100, 110, 120, 130, 140, 150, 250] :: bytes)) [0, 0, 0, 0, 0, 0, 0, 0, 0, 0, 0, 0, 0, 0, 0, 0], sa)
         \<and> length c = length ([10, 20, 30, 40, 50, 60, 70, 80, 90, 100, 110, 120, 130, 140, 150, 250] :: bytes)
         \<and> crypt_cipher_decrypt toy sa
             (c @ drop (length ([10, 20, 30, 40, 50, 60, 70, 80, 90, 100, 110, 120, 130, 140, 150, 250] :: bytes)) [0, 0, 0, 0, 0, 0, 0, 0, 0, 0, 0, 0, 0, 0, 0, 0])
             [0, 0, 0, 0, 0, 0, 0, 0, 0, 0, 0, 0, 0, 0, 0, 0]
             (length ([10, 20, 30, 40, 50, 60, 70, 80, 90, 100, 110, 120, 130, 140, 150, 250] :: bytes))
             (Some [4, 0, 0, 0, 0, 0, 0, 0, 0, 0, 0, 0, 0, 0, 0, 0]) 16
           = Some (OK,
               [10, 20, 30, 40, 50, 60, 70, 80, 90, 100, 110, 120, 130, 140, 150, 250]
                 @ drop (length ([10, 20, 30, 40, 50, 60, 70, 80, 90, 100, 110, 120, 130, 140, 150, 250] :: bytes)) [0, 0, 0, 0, 0, 0, 0, 0, 0, 0, 0, 0, 0, 0, 0, 0],
               sb))"
proof -
  have i:
    "crypt_cipher_init toy None ''aes'' ''cbc''
       [1, 0, 0, 0, 0, 0, 0, 0, 0, 0, 0, 0, 0, 0, 0, 2] 16 heap0
     = (OK,
        Some (Ptr 1
         \<lparr>hd_enc = Some (Ptr 2 (Some EVP_aes_128_cbc,
            [1, 0, 0, 0, 0, 0, 0, 0, 0, 0, 0, 0, 0, 0, 0, 2], [], False, True)),
          hd_dec = Some (Ptr 3 (Some EVP_aes_128_cbc,
            [1, 0, 0, 0, 0, 0, 0, 0, 0, 0, 0, 0, 0, 0, 0, 2], [], False, False))\<rparr>),
        \<lparr>live = [3, 2, 1], script = [], faulted = False\<rparr>)"
    by (simp add: run_defs)
  have e:
    "crypt_cipher_encrypt toy
         \<lparr>hd_enc = Some (Ptr 2 (Some EVP_aes_128_cbc,
            [1, 0, 0, 0, 0, 0, 0, 0, 0, 0, 0, 0, 0, 0, 0, 2], [], False, True)),
          hd_dec = Some (Ptr 3 (Some EVP_aes_128_cbc,
            [1, 0, 0, 0, 0, 0, 0, 0, 0, 0, 0, 0, 0, 0, 0, 2], [], False, False))\<rparr>
         [10, 20, 30, 40, 50, 60, 70, 80, 90, 100, 110, 120, 130, 140, 150, 250]
         [0, 0, 0, 0, 0, 0, 0, 0, 0, 0, 0, 0, 0, 0, 0, 0] 16
         (Some [4, 0, 0, 0, 0, 0, 0, 0, 0, 0, 0, 0, 0, 0, 0, 0]) 16
       = Some (OK,
           [18, 28, 38, 48, 58, 68, 78, 88, 98, 108, 118, 128, 138, 148, 158, 2],
          \<lparr>hd_enc = Some (Ptr 2 (Some EVP_aes_128_cbc,
            [1, 0, 0, 0, 0, 0, 0, 0, 0, 0, 0, 0, 0, 0, 0, 2], [4, 0, 0, 0, 0, 0, 0, 0, 0, 0, 0, 0, 0, 0, 0, 0], False, True)),
          hd_dec = Some (Ptr 3 (Some EVP_aes_128_cbc,
            [1, 0, 0, 0, 0, 0, 0, 0, 0, 0, 0, 0, 0, 0, 0, 2], [], False, False))\<rparr>)"
    by (simp add: crypt_cipher_encrypt_def toy_def toy_cipher_init_def toy_encrypt_update_def
        toy_pad_def store_at_def c_int_def)
  have d:
    "crypt_cipher_decrypt toy
         \<lparr>hd_enc = Some (Ptr 2 (Some EVP_aes_128_cbc,
            [1, 0, 0, 0, 0, 0, 0, 0, 0, 0, 0, 0, 0, 0, 0, 2], [4, 0, 0, 0, 0, 0, 0, 0, 0, 0, 0, 0, 0, 0, 0, 0], False, True)),
          hd_dec = Some (Ptr 3 (Some EVP_aes_128_cbc,
            [1, 0, 0, 0, 0, 0, 0, 0, 0, 0, 0, 0, 0, 0, 0, 2], [], False, False))\<rparr>
         [18, 28, 38, 48, 58, 68, 78, 88, 98, 108, 118, 128, 138, 148, 158, 2]
         [0, 0, 0, 0, 0, 0, 0, 0, 0, 0, 0, 0, 0, 0, 0, 0] 16
         (Some [4, 0, 0, 0, 0, 0, 0, 0, 0, 0, 0, 0, 0, 0, 0, 0]) 16
       = Some (OK,
           [10, 20, 30, 40, 50, 60, 70, 80, 90, 100, 110, 120, 130, 140, 150, 250],
          \<lparr>hd_enc = Some (Ptr 2 (Some EVP_aes_128_cbc,
            [1, 0, 0, 0, 0, 0, 0, 0, 0, 0, 0, 0, 0, 0, 0, 2], [4, 0, 0, 0, 0, 0, 0, 0, 0, 0, 0, 0, 0, 0, 0, 0], False, True)),
          hd_dec = Some (Ptr 3 (Some EVP_aes_128_cbc,
            [1, 0, 0, 0, 0, 0, 0, 0, 0, 0, 0, 0, 0, 0, 0, 2], [4, 0, 0, 0, 0, 0, 0, 0, 0, 0, 0, 0, 0, 0, 0, 0], False, False))\<rparr>)"
    by (simp add: crypt_cipher_decrypt_def toy_def toy_cipher_init_def toy_decrypt_update_def
        toy_pad_def store_at_def c_int_def)
  have ty: "crypt_cipher_init_type ''aes'' ''cbc'' 16 = Inr EVP_aes_128_cbc"
    by (simp add: crypt_cipher_init_type_def)
  have lt: "length ([10, 20, 30, 40, 50, 60, 70, 80, 90, 100, 110, 120, 130, 140, 150, 250] :: bytes) < 2 ^ 31" by simp
  have dv: "AES_BLOCK_SIZE dvd length ([10, 20, 30, 40, 50, 60, 70, 80, 90, 100, 110, 120, 130, 140, 150, 250] :: bytes)"
    by (simp add: AES_BLOCK_SIZE_def eval_nat_numeral)
  have le: "length ([10, 20, 30, 40, 50, 60, 70, 80, 90, 100, 110, 120, 130, 140, 150, 250] :: bytes)
      \<le> length ([0, 0, 0, 0, 0, 0, 0, 0, 0, 0, 0, 0, 0, 0, 0, 0] :: bytes)"
    by simp
  note round_trip =
    cipher_round_trip_below_int_max [OF toy_cipher_contract i ty lt TrueI dv le le,
      of "[4, 0, 0, 0, 0, 0, 0, 0, 0, 0, 0, 0, 0, 0, 0, 0]" 16 16]
  show ?thesis
    by (rule conjI [OF i conjI [OF e conjI [OF d round_trip]]])
qed

text \<open>
  Whatever the library does, \<^verbatim>\<open>crypt_cipher_encrypt\<close> and \<^verbatim>\<open>crypt_cipher_decrypt\<close> cannot
  tell a length from the same length plus \<open>2 ^ 32\<close>: the library is handed the same
  \<^verbatim>\<open>int\<close>.
\<close>

lemma crypt_cipher_length_wraps:
  "crypt_cipher_encrypt b s inp out (len + 2 ^ 32) iv iv_length
     = crypt_cipher_encrypt b s inp out len iv iv_length"
  "crypt_cipher_decrypt b s inp out (len + 2 ^ 32) iv iv_length
     = crypt_cipher_decrypt b s inp out len iv iv_length"
  by (simp_all only: crypt_cipher_encrypt_def crypt_cipher_decrypt_def c_int_wraps)

text \<open>
  C1. The claim says that every plaintext whose length is a multiple of the block size
  is returned by decrypt after encrypt with the same session and IV.
  \<^verbatim>\<open>crypt_cipher_encrypt\<close> and \<^verbatim>\<open>crypt_cipher_decrypt\<close> hand their \<^verbatim>\<open>size_t length\<close> to the
  \<^verbatim>\<open>int\<close> input length of the library's \<open>Update\<close> with no range check, so from \<open>2 ^ 31\<close>
  bytes on the library is not told the length of the plaintext. On the session that
  \<^verbatim>\<open>crypt_cipher_init\<close> returns for \<open>aes\<close>, \<open>cbc\<close> and a 16-byte key:
  \<^item> for a plaintext of 4294967312 bytes (\<open>2 ^ 32 + 16\<close>), all of them 1, the library
    is handed the length 16; encrypt returns 0 with 16 bytes written, and decrypt of
    that output returns 0 with 16 bytes of the plaintext and the rest of its output
    buffer as it was, which is not the plaintext;
  \<^item> for a plaintext of 2147483648 bytes (\<open>2 ^ 31\<close>) the library is handed a negative
    length, which it refuses, and encrypt returns \<^verbatim>\<open>-EINVAL\<close>.
\<close>

theorem crypt_cipher_encrypt_truncates_length:
  "crypt_cipher_init toy None ''aes'' ''cbc''
       [1, 0, 0, 0, 0, 0, 0, 0, 0, 0, 0, 0, 0, 0, 0, 2] 16 heap0
     = (OK,
        Some (Ptr 1
          \<lparr>hd_enc = Some (Ptr 2 (Some EVP_aes_128_cbc,
             [1, 0, 0, 0, 0, 0, 0, 0, 0, 0, 0, 0, 0, 0, 0, 2], [], False, True)),
           hd_dec = Some (Ptr 3 (Some EVP_aes_128_cbc,
             [1, 0, 0, 0, 0, 0, 0, 0, 0, 0, 0, 0, 0, 0, 0, 2], [], False, False))\<rparr>),
        \<lparr>live = [3, 2, 1], script = [], faulted = False\<rparr>)
   \<and> AES_BLOCK_SIZE dvd 4294967312
   \<and> c_int 4294967312 = 16
   \<and> crypt_cipher_encrypt toy
         \<lparr>hd_enc = Some (Ptr 2 (Some EVP_aes_128_cbc,
            [1, 0, 0, 0, 0, 0, 0, 0, 0, 0, 0, 0, 0, 0, 0, 2], [], False, True)),
          hd_dec = Some (Ptr 3 (Some EVP_aes_128_cbc,
            [1, 0, 0, 0, 0, 0, 0, 0, 0, 0, 0, 0, 0, 0, 0, 2], [], False, False))\<rparr>
         (replicate 4294967312 1) (replicate 4294967312 0) 4294967312
         (Some [4, 0, 0, 0, 0, 0, 0, 0, 0, 0, 0, 0, 0, 0, 0, 0]) 16
       = Some (OK, replicate 16 9 @ replicate 4294967296 0,
           \<lparr>hd_enc = Some (Ptr 2 (Some EVP_aes_128_cbc,
              [1, 0, 0, 0, 0, 0, 0, 0, 0, 0, 0, 0, 0, 0, 0, 2],
              [4, 0, 0, 0, 0, 0, 0, 0, 0, 0, 0, 0, 0, 0, 0, 0], False, True)),
            hd_dec = Some (Ptr 3 (Some EVP_aes_128_cbc,
              [1, 0, 0, 0, 0, 0, 0, 0, 0, 0, 0, 0, 0, 0, 0, 2], [], False, False))\<rparr>)
   \<and> crypt_cipher_decrypt toy
         \<lparr>hd_enc = Some (Ptr 2 (Some EVP_aes_128_cbc,
            [1, 0, 0, 0, 0, 0, 0, 0, 0, 0, 0, 0, 0, 0, 0, 2],
            [4, 0, 0, 0, 0, 0, 0, 0, 0, 0, 0, 0, 0, 0, 0, 0], False, True)),
          hd_dec = Some (Ptr 3 (Some EVP_aes_128_cbc,
            [1, 0, 0, 0, 0, 0, 0, 0, 0, 0, 0, 0, 0, 0, 0, 2], [], False, False))\<rparr>
         (replicate 16 9 @ replicate 4294967296 0) (replicate 4294967312 0) 4294967312
         (Some [4, 0, 0, 0, 0, 0, 0, 0, 0, 0, 0, 0, 0, 0, 0, 0]) 16
       = Some (OK, replicate 16 1 @ replicate 4294967296 0,
           \<lparr>hd_enc = Some (Ptr 2 (Some EVP_aes_128_cbc,
              [1, 0, 0, 0, 0, 0, 0, 0, 0, 0, 0, 0, 0, 0, 0, 2],
              [4, 0, 0, 0, 0, 0, 0, 0, 0, 0, 0, 0, 0, 0, 0, 0], False, True)),
            hd_dec = Some (Ptr 3 (Some EVP_aes_128_cbc,
              [1, 0, 0, 0, 0, 0, 0, 0, 0, 0, 0, 0, 0, 0, 0, 2],
              [4, 0, 0, 0, 0, 0, 0, 0, 0, 0, 0, 0, 0, 0, 0, 0], False, False))\<rparr>)
   \<and> replicate 16 1 @ replicate 4294967296 0 \<noteq> replicate 4294967312 (1::byte)
   \<and> AES_BLOCK_SIZE dvd 2147483648
   \<and> c_int 2147483648 = - 2147483648
   \<and> crypt_cipher_encrypt toy
         \<lparr>hd_enc = Some (Ptr 2 (Some EVP_aes_128_cbc,
            [1, 0, 0, 0, 0, 0, 0, 0, 0, 0, 0, 0, 0, 0, 0, 2], [], False, True)),
          hd_dec = Some (Ptr 3 (Some EVP_aes_128_cbc,
            [1, 0, 0, 0, 0, 0, 0, 0, 0, 0, 0, 0, 0, 0, 0, 2], [], False, False))\<rparr>
         (replicate 2147483648 1) (replicate 2147483648 0) 2147483648
         (Some [4, 0, 0, 0, 0, 0, 0, 0, 0, 0, 0, 0, 0, 0, 0, 0]) 16
       = Some (ERR EINVAL, replicate 2147483648 0,
           \<lparr>hd_enc = Some (Ptr 2 (Some EVP_aes_128_cbc,
              [1, 0, 0, 0, 0, 0, 0, 0, 0, 0, 0, 0, 0, 0, 0, 2],
              [4, 0, 0, 0, 0, 0, 0, 0, 0, 0, 0, 0, 0, 0, 0, 0], False, True)),
            hd_dec = Some (Ptr 3 (Some EVP_aes_128_cbc,
              [1, 0, 0, 0, 0, 0, 0, 0, 0, 0, 0, 0, 0, 0, 0, 2], [], False, False))\<rparr>)"
proof (intro conjI)
  show "crypt_cipher_init toy None ''aes'' ''cbc''
       [1, 0, 0, 0, 0, 0, 0, 0, 0, 0, 0, 0, 0, 0, 0, 2] 16 heap0
     = (OK,
        Some (Ptr 1
          \<lparr>hd_enc = Some (Ptr 2 (Some EVP_aes_128_cbc,
             [1, 0, 0, 0, 0, 0, 0, 0, 0, 0, 0, 0, 0, 0, 0, 2], [], False, True)),
           hd_dec = Some (Ptr 3 (Some EVP_aes_128_cbc,
             [1, 0, 0, 0, 0, 0, 0, 0, 0, 0, 0, 0, 0, 0, 0, 2], [], False, False))\<rparr>),
        \<lparr>live = [3, 2, 1], script = [], faulted = False\<rparr>)"
    by (simp add: run_defs)
  show "AES_BLOCK_SIZE dvd 4294967312" by (simp add: AES_BLOCK_SIZE_def)
  show "c_int 4294967312 = 16" by (simp add: c_int_def)
  show "crypt_cipher_encrypt toy
         \<lparr>hd_enc = Some (Ptr 2 (Some EVP_aes_128_cbc,
            [1, 0, 0, 0, 0, 0, 0, 0, 0, 0, 0, 0, 0, 0, 0, 2], [], False, True)),
          hd_dec = Some (Ptr 3 (Some EVP_aes_128_cbc,
            [1, 0, 0, 0, 0, 0, 0, 0, 0, 0, 0, 0, 0, 0, 0, 2], [], False, False))\<rparr>
         (replicate 4294967312 1) (replicate 4294967312 0) 4294967312
         (Some [4, 0, 0, 0, 0, 0, 0, 0, 0, 0, 0, 0, 0, 0, 0, 0]) 16
       = Some (OK, replicate 16 9 @ replicate 4294967296 0,
           \<lparr>hd_enc = Some (Ptr 2 (Some EVP_aes_128_cbc,
              [1, 0, 0, 0, 0, 0, 0, 0, 0, 0, 0, 0, 0, 0, 0, 2],
              [4, 0, 0, 0, 0, 0, 0, 0, 0, 0, 0, 0, 0, 0, 0, 0], False, True)),
            hd_dec = Some (Ptr 3 (Some EVP_aes_128_cbc,
              [1, 0, 0, 0, 0, 0, 0, 0, 0, 0, 0, 0, 0, 0, 0, 2], [], False, False))\<rparr>)"
    by (simp add: crypt_cipher_encrypt_def toy_def toy_cipher_init_def toy_encrypt_update_def
        toy_pad_def store_at_def c_int_def)
  show "crypt_cipher_decrypt toy
         \<lparr>hd_enc = Some (Ptr 2 (Some EVP_aes_128_cbc,
            [1, 0, 0, 0, 0, 0, 0, 0, 0, 0, 0, 0, 0, 0, 0, 2],
            [4, 0, 0, 0, 0, 0, 0, 0, 0, 0, 0, 0, 0, 0, 0, 0], False, True)),
          hd_dec = Some (Ptr 3 (Some EVP_aes_128_cbc,
            [1, 0, 0, 0, 0, 0, 0, 0, 0, 0, 0, 0, 0, 0, 0, 2], [], False, False))\<rparr>
         (replicate 16 9 @ replicate 4294967296 0) (replicate 4294967312 0) 4294967312
         (Some [4, 0, 0, 0, 0, 0, 0, 0, 0, 0, 0, 0, 0, 0, 0, 0]) 16
       = Some (OK, replicate 16 1 @ replicate 4294967296 0,
           \<lparr>hd_enc = Some (Ptr 2 (Some EVP_aes_128_cbc,
              [1, 0, 0, 0, 0, 0, 0, 0, 0, 0, 0, 0, 0, 0, 0, 2],
              [4, 0, 0, 0, 0, 0, 0, 0, 0, 0, 0, 0, 0, 0, 0, 0], False, True)),
            hd_dec = Some (Ptr 3 (Some EVP_aes_128_cbc,
              [1, 0, 0, 0, 0, 0, 0, 0, 0, 0, 0, 0, 0, 0, 0, 2],
              [4, 0, 0, 0, 0, 0, 0, 0, 0, 0, 0, 0, 0, 0, 0, 0], False, False))\<rparr>)"
    by (simp add: crypt_cipher_decrypt_def toy_def toy_cipher_init_def toy_decrypt_update_def
        toy_pad_def store_at_def c_int_def)
  show "replicate 16 1 @ replicate 4294967296 0 \<noteq> replicate 4294967312 (1::byte)"
  proof
    assume "replicate 16 1 @ replicate 4294967296 0 = replicate 4294967312 (1::byte)"
    then have "last (replicate 16 1 @ replicate 4294967296 0) = last (replicate 4294967312 (1::byte))"
      by simp
    then show False by simp
  qed
  show "AES_BLOCK_SIZE dvd 2147483648" by (simp add: AES_BLOCK_SIZE_def)
  show "c_int 2147483648 = - 2147483648" by (simp add: c_int_def)
  show "crypt_cipher_encrypt toy
         \<lparr>hd_enc = Some (Ptr 2 (Some EVP_aes_128_cbc,
            [1, 0, 0, 0, 0, 0, 0, 0, 0, 0, 0, 0, 0, 0, 0, 2], [], False, True)),
          hd_dec = Some (Ptr 3 (Some EVP_aes_128_cbc,
            [1, 0, 0, 0, 0, 0, 0, 0, 0, 0, 0, 0, 0, 0, 0, 2], [], False, False))\<rparr>
         (replicate 2147483648 1) (replicate 2147483648 0) 2147483648
         (Some [4, 0, 0, 0, 0, 0, 0, 0, 0, 0, 0, 0, 0, 0, 0, 0]) 16
       = Some (ERR EINVAL, replicate 2147483648 0,
           \<lparr>hd_enc = Some (Ptr 2 (Some EVP_aes_128_cbc,
              [1, 0, 0, 0, 0, 0, 0, 0, 0, 0, 0, 0, 0, 0, 0, 2],
              [4, 0, 0, 0, 0, 0, 0, 0, 0, 0, 0, 0, 0, 0, 0, 0], False, True)),
            hd_dec = Some (Ptr 3 (Some EVP_aes_128_cbc,
              [1, 0, 0, 0, 0, 0, 0, 0, 0, 0, 0, 0, 0, 0, 0, 2], [], False, False))\<rparr>)"
    by (simp add: crypt_cipher_encrypt_def toy_def toy_cipher_init_def toy_encrypt_update_def
        toy_pad_def store_at_def c_int_def)
qed

end
